theory Spec2Isabelle
  imports Complex_Main "HOL-Library.AList"
begin

section \<open>Python values, strings and floats\<close>

text \<open>
  The theory embeds the metric extraction and scoring engine of
  \<^verbatim>\<open>eval_metrics_harness.py\<close>. Conventions of the embedding:

  \<^item> A Python \<^verbatim>\<open>str\<close> is a \<open>string\<close> whose characters are read as the code
    points U+0000 to U+00FF, so that \<open>length\<close> counts code points as Python does and
    the multiplication sign U+00D7 of the source is the single character \<open>CHR 0xD7\<close>.
    Text with code points above U+00FF is outside the embedding.
  \<^item> A Python \<^verbatim>\<open>float\<close> is a \<open>pyfloat\<close>: an exact rational, an infinity or
    not-a-number. Overflow to an infinity is modelled; rounding to 53 bits is not.
  \<^item> A Python \<^verbatim>\<open>dict\<close> is an association list in insertion order, read with
    \<open>map_of\<close> and written with \<open>AList.update\<close> (an existing key keeps its place, a
    new key goes to the end, as in Python).
  \<^item> An exception is the \<open>Inl\<close> of a sum type.
\<close>

datatype pyfloat = Fin rat | PosInf | NegInf | NaN

datatype pyval =
    PNone
  | PBool bool
  | PInt int
  | PFloat pyfloat
  | PStr string
  | PList "pyval list"
  | PDict "(string \<times> pyval) list"

text \<open>
  The exceptions of the embedded code. \<open>ValueErrorFound msg header\<close> is the ValueError
  whose message is \<open>msg\<close> followed by the printed list \<open>header\<close>.
\<close>

datatype pyerr =
    OverflowError
  | ZeroDivisionError
  | RecursionError
  | ValueError string
  | ValueErrorFound string "string list"

type_synonym pydict = "(string \<times> pyval) list"

subsection \<open>Character classes of \<^verbatim>\<open>str\<close> and \<^verbatim>\<open>re\<close> below U+0100\<close>

definition code_point :: "char \<Rightarrow> nat" where
  "code_point c = of_char c"

definition times_sign :: char where
  "times_sign = CHR 0xD7"

text \<open>\<^verbatim>\<open>str.isspace\<close>, also the class \<^verbatim>\<open>\s\<close> of \<^verbatim>\<open>re\<close> and what \<^verbatim>\<open>str.strip()\<close> removes.\<close>

definition py_isspace :: "char \<Rightarrow> bool" where
  "py_isspace c = (let n = code_point c in
     (9 \<le> n \<and> n \<le> 13) \<or> (28 \<le> n \<and> n \<le> 32) \<or> n = 133 \<or> n = 160)"

text \<open>The class \<^verbatim>\<open>\d\<close> of \<^verbatim>\<open>re\<close> and the decimal digits \<^verbatim>\<open>float\<close> reads.\<close>

definition py_isdigit :: "char \<Rightarrow> bool" where
  "py_isdigit c = (let n = code_point c in 48 \<le> n \<and> n \<le> 57)"

text \<open>\<^verbatim>\<open>str.isalnum\<close>: letters, digits and the numeric characters of the range.\<close>

definition py_isalnum :: "char \<Rightarrow> bool" where
  "py_isalnum c = (let n = code_point c in
     (48 \<le> n \<and> n \<le> 57) \<or> (65 \<le> n \<and> n \<le> 90) \<or> (97 \<le> n \<and> n \<le> 122) \<or>
     n = 170 \<or> n = 178 \<or> n = 179 \<or> n = 181 \<or> n = 185 \<or> n = 186 \<or>
     (188 \<le> n \<and> n \<le> 190) \<or> (192 \<le> n \<and> n \<le> 214) \<or>
     (216 \<le> n \<and> n \<le> 246) \<or> (248 \<le> n \<and> n \<le> 255))"

text \<open>The class \<^verbatim>\<open>\w\<close> of \<^verbatim>\<open>re\<close>: alphanumeric or the underscore.\<close>

definition py_isword :: "char \<Rightarrow> bool" where
  "py_isword c = (py_isalnum c \<or> c = CHR ''_'')"

definition lower_char :: "char \<Rightarrow> char" where
  "lower_char c = (let n = code_point c in
     if (65 \<le> n \<and> n \<le> 90) \<or> (192 \<le> n \<and> n \<le> 214) \<or> (216 \<le> n \<and> n \<le> 222)
     then char_of (n + 32) else c)"

text \<open>
  \<^verbatim>\<open>str.upper\<close> maps U+00DF to the two letters SS. The upper-case forms of U+00B5 and
  U+00FF lie above U+00FF; they are left in place here. None of them is a letter of the
  words the source searches for in an upper-cased string.
\<close>

definition upper_char :: "char \<Rightarrow> string" where
  "upper_char c = (let n = code_point c in
     if (97 \<le> n \<and> n \<le> 122) \<or> (224 \<le> n \<and> n \<le> 246) \<or> (248 \<le> n \<and> n \<le> 254)
     then [char_of (n - 32)]
     else if n = 223 then ''SS'' else [c])"

definition py_lower :: "string \<Rightarrow> string" where
  "py_lower s = map lower_char s"

definition py_upper :: "string \<Rightarrow> string" where
  "py_upper s = concat (map upper_char s)"

subsection \<open>String operations\<close>

definition py_strip :: "string \<Rightarrow> string" where
  "py_strip s = rev (dropWhile py_isspace (rev (dropWhile py_isspace s)))"

definition py_rstrip_chars :: "string \<Rightarrow> string \<Rightarrow> string" where
  "py_rstrip_chars cs s = rev (dropWhile (\<lambda>c. c \<in> set cs) (rev s))"

definition py_remove_char :: "char \<Rightarrow> string \<Rightarrow> string" where
  "py_remove_char c s = filter (\<lambda>d. d \<noteq> c) s"

definition py_replace_char :: "char \<Rightarrow> char \<Rightarrow> string \<Rightarrow> string" where
  "py_replace_char a b s = map (\<lambda>c. if c = a then b else c) s"

definition py_startswith :: "string \<Rightarrow> string \<Rightarrow> bool" where
  "py_startswith s p = (take (length p) s = p)"

text \<open>\<^verbatim>\<open>sub in s\<close>.\<close>

fun py_in :: "string \<Rightarrow> string \<Rightarrow> bool" where
  "py_in sub [] = (sub = [])"
| "py_in sub (c # cs) = (py_startswith (c # cs) sub \<or> py_in sub cs)"

text \<open>\<^verbatim>\<open>s.find(sub)\<close>: the least index where \<open>sub\<close> starts, or \<open>None\<close> for -1.\<close>

fun py_find :: "string \<Rightarrow> string \<Rightarrow> nat option" where
  "py_find [] sub = (if sub = [] then Some 0 else None)"
| "py_find (c # cs) sub =
     (if py_startswith (c # cs) sub then Some 0 else map_option Suc (py_find cs sub))"

text \<open>\<^verbatim>\<open>s.split()\<close>: the maximal runs of non-whitespace characters.\<close>

fun split_ws_acc :: "string \<Rightarrow> string \<Rightarrow> string list" where
  "split_ws_acc w [] = (if w = [] then [] else [rev w])"
| "split_ws_acc w (c # cs) =
     (if py_isspace c then (if w = [] then [] else [rev w]) @ split_ws_acc [] cs
      else split_ws_acc (c # w) cs)"

definition py_split_ws :: "string \<Rightarrow> string list" where
  "py_split_ws s = split_ws_acc [] s"

text \<open>\<^verbatim>\<open>sep.join(parts)\<close>.\<close>

fun py_join :: "string \<Rightarrow> string list \<Rightarrow> string" where
  "py_join sep [] = []"
| "py_join sep [p] = p"
| "py_join sep (p # q # ps) = p @ sep @ py_join sep (q # ps)"

subsection \<open>Floats\<close>

text \<open>
  A decimal or integer whose magnitude reaches \<open>2^1024 - 2^970\<close> rounds beyond the largest
  double: \<^verbatim>\<open>float(str)\<close> then gives an infinity, \<^verbatim>\<open>float(int)\<close> raises OverflowError.
\<close>

definition float_limit :: rat where
  "float_limit = 2 ^ 1024 - 2 ^ 970"

definition mk_float :: "rat \<Rightarrow> pyfloat" where
  "mk_float q = (if float_limit \<le> q then PosInf else if q \<le> - float_limit then NegInf else Fin q)"

definition float_of_int :: "int \<Rightarrow> pyerr + pyfloat" where
  "float_of_int i =
     (if float_limit \<le> \<bar>of_int i\<bar> then Inl OverflowError else Inr (Fin (of_int i)))"

definition fneg :: "pyfloat \<Rightarrow> pyfloat" where
  "fneg x = (case x of Fin q \<Rightarrow> Fin (- q) | PosInf \<Rightarrow> NegInf | NegInf \<Rightarrow> PosInf | NaN \<Rightarrow> NaN)"

definition fabs :: "pyfloat \<Rightarrow> pyfloat" where
  "fabs x = (case x of Fin q \<Rightarrow> Fin \<bar>q\<bar> | PosInf \<Rightarrow> PosInf | NegInf \<Rightarrow> PosInf | NaN \<Rightarrow> NaN)"

text \<open>\<^verbatim>\<open>x < y\<close> on floats: false whenever an operand is not-a-number.\<close>

fun flt :: "pyfloat \<Rightarrow> pyfloat \<Rightarrow> bool" where
  "flt NaN _ = False"
| "flt _ NaN = False"
| "flt (Fin a) (Fin b) = (a < b)"
| "flt NegInf NegInf = False"
| "flt NegInf _ = True"
| "flt _ NegInf = False"
| "flt PosInf _ = False"
| "flt _ PosInf = True"

definition fgt :: "pyfloat \<Rightarrow> pyfloat \<Rightarrow> bool" where
  "fgt x y = flt y x"

text \<open>\<^verbatim>\<open>x <= y\<close> on floats.\<close>

definition fle :: "pyfloat \<Rightarrow> pyfloat \<Rightarrow> bool" where
  "fle x y = (x \<noteq> NaN \<and> y \<noteq> NaN \<and> \<not> flt y x)"

text \<open>\<^verbatim>\<open>x - y\<close> on floats.\<close>

fun fsub :: "pyfloat \<Rightarrow> pyfloat \<Rightarrow> pyfloat" where
  "fsub NaN _ = NaN"
| "fsub _ NaN = NaN"
| "fsub (Fin a) (Fin b) = mk_float (a - b)"
| "fsub PosInf PosInf = NaN"
| "fsub NegInf NegInf = NaN"
| "fsub PosInf _ = PosInf"
| "fsub NegInf _ = NegInf"
| "fsub _ PosInf = NegInf"
| "fsub _ NegInf = PosInf"

text \<open>\<^verbatim>\<open>x * 100\<close> and \<^verbatim>\<open>x / 100.0\<close>.\<close>

definition fmul100 :: "pyfloat \<Rightarrow> pyfloat" where
  "fmul100 x = (case x of Fin q \<Rightarrow> mk_float (q * 100) | _ \<Rightarrow> x)"

definition fdiv100 :: "pyfloat \<Rightarrow> pyfloat" where
  "fdiv100 x = (case x of Fin q \<Rightarrow> Fin (q / 100) | _ \<Rightarrow> x)"

subsection \<open>\<^verbatim>\<open>float(str)\<close>\<close>

text \<open>
  \<^verbatim>\<open>float\<close> turns the non-ASCII spaces into blanks, checks the underscores (each one
  between two digits) and drops them, strips C whitespace, and then wants the whole rest
  to be a sign followed by \<^verbatim>\<open>inf\<close>, \<^verbatim>\<open>infinity\<close>, \<^verbatim>\<open>nan\<close> or a decimal with an optional
  exponent. \<open>None\<close> stands for ValueError.
\<close>

definition float_space :: "char \<Rightarrow> bool" where
  "float_space c = (let n = code_point c in (9 \<le> n \<and> n \<le> 13) \<or> n = 32 \<or> n = 133 \<or> n = 160)"

fun underscores_ok :: "char \<Rightarrow> string \<Rightarrow> bool" where
  "underscores_ok prev [] = (prev \<noteq> CHR ''_'')"
| "underscores_ok prev (c # cs) =
     ((if c = CHR ''_'' then py_isdigit prev
       else if prev = CHR ''_'' then py_isdigit c else True)
      \<and> underscores_ok c cs)"

definition digit_val :: "char \<Rightarrow> nat" where
  "digit_val c = code_point c - 48"

definition dec_val :: "string \<Rightarrow> nat" where
  "dec_val ds = foldl (\<lambda>a c. 10 * a + digit_val c) 0 ds"

definition pow10 :: "int \<Rightarrow> rat" where
  "pow10 e = (if 0 \<le> e then 10 ^ nat e else 1 / 10 ^ nat (- e))"

definition split_sign :: "string \<Rightarrow> bool \<times> string" where
  "split_sign s = (case s of
       c # cs \<Rightarrow> if c = CHR ''-'' then (True, cs) else if c = CHR ''+'' then (False, cs) else (False, s)
     | [] \<Rightarrow> (False, s))"

text \<open>The exponent part: empty, or \<^verbatim>\<open>e\<close>, an optional sign and at least one digit.\<close>

definition parse_exponent :: "string \<Rightarrow> int option" where
  "parse_exponent s = (case s of
       [] \<Rightarrow> Some 0
     | c # cs \<Rightarrow>
         if c = CHR ''e'' \<or> c = CHR ''E'' then
           (let (neg, ds) = split_sign cs in
            if ds \<noteq> [] \<and> list_all py_isdigit ds
            then Some (if neg then - int (dec_val ds) else int (dec_val ds))
            else None)
         else None)"

definition parse_decimal :: "string \<Rightarrow> rat option" where
  "parse_decimal s =
     (let ip = takeWhile py_isdigit s; r1 = dropWhile py_isdigit s;
          has_dot = (r1 \<noteq> [] \<and> hd r1 = CHR ''.'');
          fp = (if has_dot then takeWhile py_isdigit (tl r1) else []);
          r2 = (if has_dot then dropWhile py_isdigit (tl r1) else r1)
      in if ip = [] \<and> fp = [] then None
         else (case parse_exponent r2 of
                 None \<Rightarrow> None
               | Some e \<Rightarrow> Some (of_nat (dec_val (ip @ fp)) * pow10 (e - int (length fp)))))"

definition py_float :: "string \<Rightarrow> pyfloat option" where
  "py_float s =
     (if \<not> underscores_ok (CHR 0x00) s then None
      else
        let t = py_remove_char (CHR ''_'') s;
            u = rev (dropWhile float_space (rev (dropWhile float_space t)));
            (neg, body) = split_sign u;
            low = py_lower body
        in if low = ''inf'' \<or> low = ''infinity'' then Some (if neg then NegInf else PosInf)
           else if low = ''nan'' then Some NaN
           else (case parse_decimal body of
                   None \<Rightarrow> None
                 | Some q \<Rightarrow> Some (mk_float (if neg then - q else q))))"

section \<open>Value normalizer\<close>

text \<open>
  \<^verbatim>\<open>normalize_value\<close>. A \<^verbatim>\<open>bool\<close> is an \<^verbatim>\<open>int\<close> for \<^verbatim>\<open>isinstance\<close>. The float branch keeps
  every value equal to itself, so only not-a-number is dropped. The string branch strips
  \<^verbatim>\<open>"xX%"\<close> from the right, not the multiplication sign.
\<close>

definition normalize_value :: "pyval \<Rightarrow> pyerr + pyfloat option" where
  "normalize_value val = (case val of
       PNone \<Rightarrow> Inr None
     | PBool b \<Rightarrow> Inr (Some (Fin (if b then 1 else 0)))
     | PInt i \<Rightarrow> map_sum id Some (float_of_int i)
     | PFloat f \<Rightarrow> Inr (if f = NaN then None else Some f)
     | PStr v \<Rightarrow>
         (let s = py_lower (py_strip v) in
          if s \<in> set ['''', ''n/a'', ''na'', ''null'', ''none''] then Inr None
          else Inr (py_float (py_strip (py_rstrip_chars ''xX%'' (py_remove_char (CHR '','') s)))))
     | PList _ \<Rightarrow> Inr None
     | PDict _ \<Rightarrow> Inr None)"


section \<open>Metric canonicalizer\<close>

definition CANONICAL_KEYS :: "string list" where
  "CANONICAL_KEYS =
     [''irr'', ''moic'', ''dpi'', ''tvpi'',
      ''current_yield'', ''income_distribution_rate'', ''gross_annualized_debt_itd_portfolio_yield'',
      ''total_distributions'', ''unrealized_value'', ''closing_date_dec_3_month'', ''yield'',
      ''ytd_whcm'', ''gmv'']"

definition OTHER_LABEL_TO_CANONICAL :: "(string \<times> string) list" where
  "OTHER_LABEL_TO_CANONICAL =
     [(''current yield'', ''current_yield''),
      (''current_yield'', ''current_yield''),
      (''income distribution rate'', ''income_distribution_rate''),
      (''income_distribution_rate'', ''income_distribution_rate''),
      (''distribution rate'', ''income_distribution_rate''),
      (''gross annualized debt itd portfolio yield'', ''gross_annualized_debt_itd_portfolio_yield''),
      (''gross_annualized_debt_itd_portfolio_yield'', ''gross_annualized_debt_itd_portfolio_yield''),
      (''portfolio yield'', ''gross_annualized_debt_itd_portfolio_yield''),
      (''annualized debt portfolio yield'', ''gross_annualized_debt_itd_portfolio_yield''),
      (''total distributions'', ''total_distributions''),
      (''total_distributions'', ''total_distributions''),
      (''unrealized value'', ''unrealized_value''),
      (''unrealized_value'', ''unrealized_value''),
      (''closing date dec 3 month'', ''closing_date_dec_3_month''),
      (''closing_date_dec_3_month'', ''closing_date_dec_3_month''),
      (''yield'', ''yield''),
      (''ytd whcm'', ''ytd_whcm''),
      (''ytd_whcm'', ''ytd_whcm''),
      (''ytd whc m'', ''ytd_whcm''),
      (''gmv'', ''gmv''),
      (''spread'', ''yield'')]"

text \<open>\<^verbatim>\<open>d.get(k)\<close>: the value of the key, \<^verbatim>\<open>None\<close> when the key is missing.\<close>

definition dict_get :: "pydict \<Rightarrow> string \<Rightarrow> pyval" where
  "dict_get d k = (case map_of d k of None \<Rightarrow> PNone | Some v \<Rightarrow> v)"

text \<open>Truth value of an object, and \<^verbatim>\<open>a or b\<close>, which yields \<open>b\<close> when \<open>a\<close> is falsy.\<close>

definition truthy :: "pyval \<Rightarrow> bool" where
  "truthy v = (case v of
       PNone \<Rightarrow> False
     | PBool b \<Rightarrow> b
     | PInt i \<Rightarrow> i \<noteq> 0
     | PFloat f \<Rightarrow> f \<noteq> Fin 0
     | PStr s \<Rightarrow> s \<noteq> []
     | PList xs \<Rightarrow> xs \<noteq> []
     | PDict d \<Rightarrow> d \<noteq> [])"

definition py_or :: "pyval \<Rightarrow> pyval \<Rightarrow> pyval" where
  "py_or a b = (if truthy a then a else b)"

text \<open>
  \<^verbatim>\<open>str(v)\<close>: a string is itself; how Python prints any other value is the parameter
  \<open>repr_of\<close>.
\<close>

definition py_str :: "(pyval \<Rightarrow> string) \<Rightarrow> pyval \<Rightarrow> string" where
  "py_str repr_of v = (case v of PStr s \<Rightarrow> s | _ \<Rightarrow> repr_of v)"

text \<open>\<^verbatim>\<open>canonicalize_label\<close>, with \<^verbatim>\<open>re.sub(r"[^\w\s]", " ", ...)\<close> as a map over the characters.\<close>

definition canonicalize_label :: "string \<Rightarrow> string" where
  "canonicalize_label label =
     (if label = [] \<or> py_strip label = [] then []
      else
        let s = map (\<lambda>c. if py_isword c \<or> py_isspace c then c else CHR '' '') (py_lower label)
        in py_strip (py_join '' '' (py_split_ws s)))"

definition normalize_label_for_lookup :: "string \<Rightarrow> string" where
  "normalize_label_for_lookup label =
     (let c = canonicalize_label label in
      if c = [] then [] else py_replace_char (CHR '' '') (CHR ''_'') c)"

type_synonym canon = "(string \<times> pyfloat option) list"

text \<open>\<^verbatim>\<open>out[k] = normalize_value(v)\<close>.\<close>

definition set_normalized :: "string \<Rightarrow> pyval \<Rightarrow> canon \<Rightarrow> pyerr + canon" where
  "set_normalized k v out =
     (case normalize_value v of Inl e \<Rightarrow> Inl e | Inr x \<Rightarrow> Inr (AList.update k x out))"

text \<open>The loop over the named fields of the new schema.\<close>

fun named_fields :: "pydict \<Rightarrow> string list \<Rightarrow> canon \<Rightarrow> pyerr + canon" where
  "named_fields d [] out = Inr out"
| "named_fields d (k # ks) out =
     (if map_of d k \<noteq> None \<and> dict_get d k \<noteq> PNone
      then (case set_normalized k (dict_get d k) out of
              Inl e \<Rightarrow> Inl e
            | Inr out' \<Rightarrow> named_fields d ks out')
      else named_fields d ks out)"

text \<open>\<^verbatim>\<open>if canonical_key and out.get(canonical_key) is None: out[canonical_key] = ...\<close>\<close>

definition set_if_unset :: "string option \<Rightarrow> pyval \<Rightarrow> canon \<Rightarrow> pyerr + canon" where
  "set_if_unset canonical_key ov out = (case canonical_key of
       None \<Rightarrow> Inr out
     | Some k \<Rightarrow>
         if k \<noteq> [] \<and> (case map_of out k of None \<Rightarrow> True | Some x \<Rightarrow> x = None)
         then set_normalized k ov out
         else Inr out)"

definition other_metric :: "(pyval \<Rightarrow> string) \<Rightarrow> pydict \<Rightarrow> canon \<Rightarrow> pyerr + canon" where
  "other_metric repr_of d out =
     (let ol = dict_get d ''other_metric_label''; ov = dict_get d ''other_metric_value'' in
      if ol \<noteq> PNone \<and> py_strip (py_str repr_of ol) \<noteq> [] \<and> ov \<noteq> PNone then
        (let norm_label = normalize_label_for_lookup (py_str repr_of ol);
             canonical_key = map_of OTHER_LABEL_TO_CANONICAL norm_label
         in case set_if_unset canonical_key ov out of
              Inl e \<Rightarrow> Inl e
            | Inr out1 \<Rightarrow>
                if canonical_key = None \<or> canonical_key = Some [] then
                  (let space_key = py_replace_char (CHR ''_'') (CHR '' '') norm_label
                   in set_if_unset (map_of OTHER_LABEL_TO_CANONICAL space_key) ov out1)
                else Inr out1)
      else Inr out)"

text \<open>Sequencing of steps that may raise: the first exception ends the run.\<close>

definition bind_err :: "'e + 'a \<Rightarrow> ('a \<Rightarrow> 'e + 'b) \<Rightarrow> 'e + 'b" where
  "bind_err m f = (case m of Inl e \<Rightarrow> Inl e | Inr x \<Rightarrow> f x)"

text \<open>\<^verbatim>\<open>out[new] = normalize_value(pred_json.get(new) or pred_json.get(old))\<close>\<close>

definition set_core :: "string \<Rightarrow> string \<Rightarrow> pydict \<Rightarrow> canon \<Rightarrow> pyerr + canon" where
  "set_core new old d out =
     set_normalized new (py_or (dict_get d new) (dict_get d old)) out"

definition NEW_SCHEMA_FIELDS :: "string list" where
  "NEW_SCHEMA_FIELDS =
     [''current_yield'', ''income_distribution_rate'',
      ''gross_annualized_debt_itd_portfolio_yield'', ''total_distributions'',
      ''unrealized_value'', ''closing_date_dec_3_month'', ''yield'', ''ytd_whcm'', ''gmv'']"

definition all_absent :: canon where
  "all_absent = map (\<lambda>k. (k, None)) CANONICAL_KEYS"

text \<open>
  \<^verbatim>\<open>normalize_prediction\<close>: an empty or non-dict argument gives the all-absent mapping;
  otherwise the four core metrics, the named fields of the new schema and the
  label/value pair of the old schema are written in this order.
\<close>

definition normalize_prediction :: "(pyval \<Rightarrow> string) \<Rightarrow> pyval \<Rightarrow> pyerr + canon" where
  "normalize_prediction repr_of pred_json = (case pred_json of
       PDict d \<Rightarrow>
         if d = [] then Inr all_absent
         else
           bind_err (set_core ''irr'' ''net_irr'' d all_absent) (\<lambda>out1.
           bind_err (set_core ''moic'' ''net_moic'' d out1) (\<lambda>out2.
           bind_err (set_core ''dpi'' ''net_dpi'' d out2) (\<lambda>out3.
           bind_err (set_core ''tvpi'' ''net_tvpi'' d out3) (\<lambda>out4.
           bind_err (named_fields d NEW_SCHEMA_FIELDS out4) (\<lambda>out5.
           other_metric repr_of d out5)))))
     | _ \<Rightarrow> Inr all_absent)"

section \<open>Unit reconciler\<close>

definition rate_metrics :: "string list" where
  "rate_metrics =
     [''irr'', ''current_yield'', ''income_distribution_rate'',
      ''gross_annualized_debt_itd_portfolio_yield'', ''yield'', ''ytd_whcm'',
      ''total_distributions'', ''unrealized_value'', ''closing_date_dec_3_month'']"

text \<open>
  \<^verbatim>\<open>unit_normalize_pred\<close>. The basis-point division comes first, before the test of the
  metric kind.
\<close>

definition unit_normalize_pred ::
  "pyfloat option \<Rightarrow> pyfloat option \<Rightarrow> string \<Rightarrow> string option \<Rightarrow> pyfloat option" where
  "unit_normalize_pred pred_val gt_val metric_kind label_hint = (case pred_val of
       None \<Rightarrow> None
     | Some p0 \<Rightarrow>
         (let p = (case label_hint of
                     None \<Rightarrow> p0
                   | Some h \<Rightarrow>
                       if h \<noteq> [] \<and> (py_in ''bp'' (py_lower h) \<or> py_in ''bps'' (py_lower h))
                       then fdiv100 p0 else p0)
          in if metric_kind \<notin> set rate_metrics then Some p
             else (case gt_val of
                     None \<Rightarrow> Some p
                   | Some g \<Rightarrow>
                       if fgt (fabs g) (Fin 1) \<and> fle (fabs p) (Fin 1) then Some (fmul100 p)
                       else if flt (fabs g) (Fin 1) \<and> fgt (fabs p) (Fin 1)
                               \<and> flt (fabs (fsub g (fdiv100 p))) (fabs (fsub g p))
                       then Some (fdiv100 p)
                       else Some p)))"

section \<open>Score\<close>

text \<open>
  \<^verbatim>\<open>round(x, 4)\<close> rounds to the nearest multiple of \<open>1/10000\<close>, a tie to the even one.
  \<^verbatim>\<open>a / b\<close> on integers raises when \<open>b\<close> is zero or the quotient is too large for a float.
\<close>

definition round_half_even :: "rat \<Rightarrow> int" where
  "round_half_even y =
     (let f = \<lfloor>y\<rfloor>; r = y - of_int f in
      if r < 1 / 2 then f else if 1 / 2 < r then f + 1 else if even f then f else f + 1)"

definition py_round4 :: "rat \<Rightarrow> rat" where
  "py_round4 x = of_int (round_half_even (x * 10000)) / 10000"

definition py_truediv :: "int \<Rightarrow> int \<Rightarrow> pyerr + rat" where
  "py_truediv a b =
     (if b = 0 then Inl ZeroDivisionError
      else if float_limit \<le> \<bar>of_int a / of_int b\<bar> then Inl OverflowError
      else Inr (of_int a / of_int b))"

text \<open>The overall score of a row: a float, or the empty string for "not applicable".\<close>

datatype score = ScoreText string | ScoreNum rat

type_synonym score_tuple = "bool \<times> bool \<times> bool \<times> bool \<times> int \<times> int \<times> score \<times> bool \<times> int"

definition compute_score_from_gt_and_matches ::
  "pydict \<Rightarrow> int \<Rightarrow> int \<Rightarrow> int \<Rightarrow> int \<Rightarrow> pyerr + score_tuple" where
  "compute_score_from_gt_and_matches gt irr_match moic_match dpi_match other_match =
     (let irr_in_scope = (dict_get gt ''net_irr'' \<noteq> PNone);
          moic_in_scope = (dict_get gt ''net_moic'' \<noteq> PNone);
          dpi_in_scope = (dict_get gt ''net_dpi'' \<noteq> PNone);
          other_in_scope = (dict_get gt ''other_metric_value'' \<noteq> PNone);
          score_denom = (if irr_in_scope then 1 else 0) + (if moic_in_scope then 1 else 0)
                        + (if dpi_in_scope then 1 else 0) + (if other_in_scope then 1 else 0);
          no_metrics_in_scope = (score_denom = 0)
      in if no_metrics_in_scope
         then Inr (irr_in_scope, moic_in_scope, dpi_in_scope, other_in_scope, 0, 0,
                   ScoreText [], True, 1)
         else
           (let score_num = (if irr_in_scope then irr_match else 0)
                            + (if moic_in_scope then moic_match else 0)
                            + (if dpi_in_scope then dpi_match else 0)
                            + (if other_in_scope then other_match else 0)
            in case py_truediv score_num score_denom of
                 Inl e \<Rightarrow> Inl e
               | Inr q \<Rightarrow>
                   Inr (irr_in_scope, moic_in_scope, dpi_in_scope, other_in_scope, score_denom,
                        score_num, ScoreNum (py_round4 q), False, 0)))"


section \<open>Candidate numbers of the scorer\<close>

text \<open>
  The pattern \<^verbatim>\<open>-?\d+(?:,\d{3})*(?:\.\d+)?\s*[%x\<times>]?|-?\d+\.\d+\<close> of the source, matched at
  the head of a string. Every part after the digits may match the empty string, so the
  greedy choices are never undone. The second alternative begins like the first, so it
  matches nowhere the first does not, and the first is tried first.
\<close>

definition unit_marks :: string where
  "unit_marks = [CHR ''%'', CHR ''x'', times_sign]"

text \<open>\<^verbatim>\<open>(?:,\d{3})*\<close>: the text consumed.\<close>

fun thousands_groups :: "string \<Rightarrow> string" where
  "thousands_groups (c # d1 # d2 # d3 # rest) =
     (if c = CHR '','' \<and> py_isdigit d1 \<and> py_isdigit d2 \<and> py_isdigit d3
      then c # d1 # d2 # d3 # thousands_groups rest else [])"
| "thousands_groups s = []"

text \<open>\<^verbatim>\<open>(?:,\d{3})*(?:\.\d+)?\s*[%x\<times>]?\<close>: the text consumed after the leading digits.\<close>

definition match_after_digits :: "string \<Rightarrow> string" where
  "match_after_digits s1 =
     (let gs = thousands_groups s1;
          s2 = drop (length gs) s1;
          fd = (if s2 \<noteq> [] \<and> hd s2 = CHR ''.'' then takeWhile py_isdigit (tl s2) else []);
          fr = (if fd = [] then [] else CHR ''.'' # fd);
          s3 = drop (length fr) s2;
          ws = takeWhile py_isspace s3;
          s4 = drop (length ws) s3;
          u = (if s4 \<noteq> [] \<and> hd s4 \<in> set unit_marks then [hd s4] else [])
      in gs @ fr @ ws @ u)"

text \<open>The text the pattern matches at the head of \<open>s\<close> (\<^verbatim>\<open>m.group(0)\<close>), if it matches.\<close>

definition match_numeric :: "string \<Rightarrow> string option" where
  "match_numeric s =
     (let sign = (if s \<noteq> [] \<and> hd s = CHR ''-'' then [CHR ''-''] else []);
          s0 = drop (length sign) s;
          ds = takeWhile py_isdigit s0
      in if ds = [] then None
         else Some (sign @ ds @ match_after_digits (drop (length ds) s0)))"

text \<open>\<^verbatim>\<open>finditer\<close>: the matches from left to right, each search starting where the last match ended.\<close>

function numeric_matches :: "string \<Rightarrow> string list" where
  "numeric_matches [] = []"
| "numeric_matches (c # cs) = (case match_numeric (c # cs) of
       None \<Rightarrow> numeric_matches cs
     | Some m \<Rightarrow> m # numeric_matches (drop (length m) (c # cs)))"
  by pat_completeness auto
termination
proof (relation "measure length")
  fix c cs m
  assume "match_numeric (c # cs) = Some m"
  then have "m \<noteq> []"
    unfolding match_numeric_def Let_def by (auto split: if_splits)
  then show "(drop (length m) (c # cs), c # cs) \<in> measure length"
    by (cases m) simp_all
qed simp_all

text \<open>
  \<^verbatim>\<open>_numbers_from_string\<close>: each match is stripped, loses its trailing unit marks and its
  commas, and is read by \<^verbatim>\<open>float\<close>; a ValueError skips the match.
\<close>

definition match_to_float :: "string \<Rightarrow> pyfloat option" where
  "match_to_float m =
     py_float (py_strip (py_remove_char (CHR '','')
       (py_rstrip_chars [CHR ''%'', CHR ''x'', times_sign, CHR ''X''] (py_strip m))))"

definition numbers_from_string :: "string \<Rightarrow> pyfloat list" where
  "numbers_from_string s = List.map_filter match_to_float (numeric_matches s)"

text \<open>The three top-level reads of \<^verbatim>\<open>extract_all_performance_numbers\<close>.\<close>

fun top_level_numbers :: "pydict \<Rightarrow> string list \<Rightarrow> pyerr + pyfloat list" where
  "top_level_numbers d [] = Inr []"
| "top_level_numbers d (key # keys) =
     bind_err (normalize_value (dict_get d key)) (\<lambda>n.
     bind_err (top_level_numbers d keys) (\<lambda>ns.
       Inr ((case n of None \<Rightarrow> [] | Some x \<Rightarrow> [x]) @ ns)))"

text \<open>One item of an array: a string is scanned, a number that equals itself is kept.\<close>

definition item_numbers :: "pyval \<Rightarrow> pyerr + pyfloat list" where
  "item_numbers item = (case item of
       PStr s \<Rightarrow> Inr (numbers_from_string s)
     | PBool b \<Rightarrow> Inr [Fin (if b then 1 else 0)]
     | PInt i \<Rightarrow> map_sum id (\<lambda>x. [x]) (float_of_int i)
     | PFloat f \<Rightarrow> Inr (if f = NaN then [] else [f])
     | _ \<Rightarrow> Inr [])"

fun items_numbers :: "pyval list \<Rightarrow> pyerr + pyfloat list" where
  "items_numbers [] = Inr []"
| "items_numbers (item # items) =
     bind_err (item_numbers item) (\<lambda>ns.
     bind_err (items_numbers items) (\<lambda>ms. Inr (ns @ ms)))"

fun array_numbers :: "pydict \<Rightarrow> string list \<Rightarrow> pyerr + pyfloat list" where
  "array_numbers d [] = Inr []"
| "array_numbers d (key # keys) =
     bind_err (case dict_get d key of PList arr \<Rightarrow> items_numbers arr | _ \<Rightarrow> Inr []) (\<lambda>ns.
     bind_err (array_numbers d keys) (\<lambda>ms. Inr (ns @ ms)))"

definition TOP_LEVEL_KEYS :: "string list" where
  "TOP_LEVEL_KEYS = [''net_irr'', ''net_moic'', ''net_dpi'']"

definition ARRAY_KEYS :: "string list" where
  "ARRAY_KEYS = [''investment_performance'', ''key_takeaways'', ''business_updates'']"

definition extract_all_performance_numbers :: "pyval \<Rightarrow> pyerr + pyfloat list" where
  "extract_all_performance_numbers data = (case data of
       PDict d \<Rightarrow>
         if d = [] then Inr []
         else
           bind_err (top_level_numbers d TOP_LEVEL_KEYS) (\<lambda>ns.
           bind_err (array_numbers d ARRAY_KEYS) (\<lambda>ms. Inr (ns @ ms)))
     | _ \<Rightarrow> Inr [])"

definition extract_numbers_from_raw_response :: "string \<Rightarrow> pyfloat list" where
  "extract_numbers_from_raw_response raw_response = numbers_from_string raw_response"

text \<open>
  The pool \<^verbatim>\<open>evaluate_one\<close> scores against:
  \<^verbatim>\<open>extract_all_performance_numbers(data) + extract_numbers_from_raw_response(raw_response)\<close>.
\<close>

definition candidate_pool :: "pyval \<Rightarrow> string \<Rightarrow> pyerr + pyfloat list" where
  "candidate_pool data raw_response =
     bind_err (extract_all_performance_numbers data) (\<lambda>numbers.
       Inr (numbers @ extract_numbers_from_raw_response raw_response))"

section \<open>Document matcher\<close>

text \<open>\<^verbatim>\<open>_normalize_for_match\<close>\<close>

definition normalize_for_match :: "string \<Rightarrow> string" where
  "normalize_for_match s =
     py_join '' '' (py_split_ws (py_strip
       (map (\<lambda>c. if py_isalnum c \<or> py_isspace c then c else CHR '' '') (py_lower s))))"

type_synonym gt_entry = "string \<times> string \<times> pydict"

text \<open>
  \<^verbatim>\<open>gt_lookup.get(pdf_name) or gt_lookup.get(pdf_stem)\<close>: a missing or empty first
  result gives way to the second.
\<close>

definition lookup_name_or_stem :: "(string \<times> pydict) list \<Rightarrow> string \<Rightarrow> string \<Rightarrow> pydict option" where
  "lookup_name_or_stem gt_lookup pdf_name pdf_stem = (case map_of gt_lookup pdf_name of
       None \<Rightarrow> map_of gt_lookup pdf_stem
     | Some m \<Rightarrow> if m \<noteq> [] then Some m else map_of gt_lookup pdf_stem)"

text \<open>The loop over \<^verbatim>\<open>gtpdf_values\<close>: every test is made on one entry before the next entry is read.\<close>

fun match_entries :: "string \<Rightarrow> string \<Rightarrow> gt_entry list \<Rightarrow> pydict option" where
  "match_entries pdf_name pdf_stem [] = None"
| "match_entries pdf_name pdf_stem ((excel_key, excel_stem, metrics) # rest) =
     (let pdf_name_norm = normalize_for_match pdf_name;
          pdf_stem_norm = normalize_for_match pdf_stem;
          pdf_lower = py_lower pdf_stem;
          pdf_norm = normalize_for_match pdf_stem;
          key_norm = normalize_for_match excel_key;
          stem_norm = normalize_for_match excel_stem
      in if key_norm = pdf_name_norm \<or> key_norm = pdf_stem_norm then Some metrics
         else if stem_norm = pdf_name_norm \<or> stem_norm = pdf_stem_norm then Some metrics
         else if length excel_stem < 3 then match_entries pdf_name pdf_stem rest
         else
           (let key_lower = py_lower excel_key;
                stem_lower = py_lower excel_stem
            in if py_in stem_lower pdf_lower \<or> py_in pdf_lower stem_lower then Some metrics
               else if py_in key_lower pdf_lower \<or> py_in pdf_lower key_lower then Some metrics
               else
                 (let excel_words = filter (\<lambda>w. 3 \<le> length w) (py_split_ws key_norm)
                  in if excel_words \<noteq> [] \<and> list_all (\<lambda>w. py_in w pdf_norm) excel_words
                     then Some metrics
                     else match_entries pdf_name pdf_stem rest)))"

definition match_pdf_to_ground_truth ::
  "string \<Rightarrow> string \<Rightarrow> (string \<times> pydict) list \<Rightarrow> gt_entry list \<Rightarrow> pydict option" where
  "match_pdf_to_ground_truth pdf_name pdf_stem gt_lookup gtpdf_values =
     (case lookup_name_or_stem gt_lookup pdf_name pdf_stem of
        Some gt \<Rightarrow> Some gt
      | None \<Rightarrow> match_entries pdf_name pdf_stem gtpdf_values)"


section \<open>Structured-response extractor\<close>

text \<open>
  \<^verbatim>\<open>s.find(sub)\<close> and \<^verbatim>\<open>s.find(sub, start)\<close> as Python integers (\<open>-1\<close> when absent), and
  the slice \<^verbatim>\<open>s[a:b]\<close> for indices that are not negative.
\<close>

definition py_find_int :: "string \<Rightarrow> string \<Rightarrow> int" where
  "py_find_int s sub = (case py_find s sub of None \<Rightarrow> - 1 | Some i \<Rightarrow> int i)"

definition py_find_from :: "string \<Rightarrow> string \<Rightarrow> int \<Rightarrow> int" where
  "py_find_from s sub start =
     (if int (length s) < start then - 1
      else (case py_find (drop (nat start) s) sub of None \<Rightarrow> - 1 | Some i \<Rightarrow> start + int i))"

definition py_slice :: "string \<Rightarrow> int \<Rightarrow> int \<Rightarrow> string" where
  "py_slice s a b = take (nat b - nat a) (drop (nat a) s)"

definition newline :: char where
  "newline = CHR 0x0A"

text \<open>\<^verbatim>\<open>s.split("\n")\<close>: the pieces between the newlines, at least one piece.\<close>

fun split_nl_acc :: "string \<Rightarrow> string \<Rightarrow> string list" where
  "split_nl_acc w [] = [rev w]"
| "split_nl_acc w (c # cs) =
     (if c = newline then rev w # split_nl_acc [] cs else split_nl_acc (c # w) cs)"

definition py_split_nl :: "string \<Rightarrow> string list" where
  "py_split_nl s = split_nl_acc [] s"

definition JUNK_LINES :: "string list" where
  "JUNK_LINES = [''[json]'', ''json'', ''json:'', ''here is the json:'', ''here is the data:'']"

text \<open>
  The \<^verbatim>\<open>while lines\<close> loop of \<^verbatim>\<open>_strip_json_prefixed_junk\<close>. \<^verbatim>\<open>str.index\<close> raises
  ValueError when the substring is absent.
\<close>

function strip_junk_lines :: "string list \<Rightarrow> pyerr + string list" where
  "strip_junk_lines [] = Inr []"
| "strip_junk_lines (l # ls) =
     (let line = py_lower (py_strip l) in
      if line = [] \<or> line \<in> set JUNK_LINES then strip_junk_lines ls
      else if py_startswith line ''json:'' \<or> py_startswith line ''```json'' then
        (case py_find (py_lower (py_strip l)) ''json'' of
           None \<Rightarrow> Inl (ValueError ''substring not found'')
         | Some i \<Rightarrow>
             (let l' = py_strip (drop (i + 4) (py_strip l)) in
              if l' = [] then strip_junk_lines ls else strip_junk_lines (l' # ls)))
      else Inr (l # ls))"
  by pat_completeness auto
termination
proof (relation "measure (\<lambda>ls. sum_list (map length ls) + length ls)")
  fix l :: string and ls :: "string list" and line i l'
  assume line: "line = py_lower (py_strip l)" and ne: "\<not> (line = [] \<or> line \<in> set JUNK_LINES)"
    and l': "l' = py_strip (drop (i + 4) (py_strip l))"
  have le: "length (py_strip t) \<le> length t" for t
    unfolding py_strip_def
    by (metis length_rev length_dropWhile_le order_trans)
  from line ne have "py_strip l \<noteq> []" by (auto simp: py_lower_def)
  then have "length (drop (i + 4) (py_strip l)) < length (py_strip l)" by simp
  then have "length l' < length l"
    unfolding l' using le [of "drop (i + 4) (py_strip l)"] le [of l] by linarith
  then show "(l' # ls, l # ls) \<in> measure (\<lambda>ls. sum_list (map length ls) + length ls)"
    by simp
qed simp_all

definition strip_json_prefixed_junk :: "string \<Rightarrow> pyerr + string" where
  "strip_json_prefixed_junk text =
     (if text = [] then Inr text
      else bind_err (strip_junk_lines (py_split_nl text)) (\<lambda>lines.
             Inr (py_strip (py_join [newline] lines))))"

text \<open>
  The loop over the indices from the first brace: the number of characters up to and
  including the brace that brings the depth back to zero.
\<close>

fun brace_span :: "int \<Rightarrow> string \<Rightarrow> nat option" where
  "brace_span depth [] = None"
| "brace_span depth (c # cs) =
     (if c = CHR ''{'' then map_option Suc (brace_span (depth + 1) cs)
      else if c = CHR ''}'' then
        (if depth - 1 = 0 then Some 1 else map_option Suc (brace_span (depth - 1) cs))
      else map_option Suc (brace_span depth cs))"

text \<open>The text between the fence that ends at \<open>start\<close> and the next fence (or the end).\<close>

definition fence_interior :: "string \<Rightarrow> int \<Rightarrow> string" where
  "fence_interior text start =
     (let e = py_find_from text ''```'' start;
          end = (if e = - 1 then int (length text) else e)
      in py_strip (py_slice text start end))"

text \<open>The interior of the first fenced block, when the text has a fence.\<close>

definition fenced_text :: "string \<Rightarrow> string" where
  "fenced_text text =
     (if py_in ''```json'' (py_lower text)
      then fence_interior text (py_find_int (py_lower text) ''```json'' + 7)
      else if py_in ''```'' text
      then fence_interior text (py_find_int text ''```'' + 3)
      else text)"

text \<open>From the first opening brace to the brace that closes it.\<close>

definition first_balanced_object :: "string \<Rightarrow> string option" where
  "first_balanced_object text =
     (let start = py_find_int text ''{'' in
      if start = - 1 then None
      else (case brace_span 0 (drop (nat start) text) of
              None \<Rightarrow> None
            | Some n \<Rightarrow> Some (py_slice text start (start + int n))))"

definition extract_first_json_object :: "string \<Rightarrow> pyerr + string option" where
  "extract_first_json_object text0 =
     bind_err (strip_json_prefixed_junk (fenced_text (py_strip text0))) (\<lambda>text.
       Inr (first_balanced_object text))"

text \<open>
  \<^verbatim>\<open>json.loads\<close> is the parameter \<open>loads\<close>. On a text it returns the parsed value, raises
  JSONDecodeError with a message, or raises another exception: RecursionError on deeply
  nested input, a plain ValueError on an integer literal beyond the digit limit of the
  interpreter. \<^verbatim>\<open>_try_parse_json\<close> catches \<^verbatim>\<open>(json.JSONDecodeError, TypeError)\<close> only and
  turns a decode error and a value that is not a dict into an error string; any other
  exception passes through it.
\<close>

datatype json_result = Decoded pyval | JSONDecodeError string | Raised pyerr

definition type_name :: "pyval \<Rightarrow> string" where
  "type_name v = (case v of
       PNone \<Rightarrow> ''NoneType'' | PBool _ \<Rightarrow> ''bool'' | PInt _ \<Rightarrow> ''int'' | PFloat _ \<Rightarrow> ''float''
     | PStr _ \<Rightarrow> ''str'' | PList _ \<Rightarrow> ''list'' | PDict _ \<Rightarrow> ''dict'')"

definition try_parse_json ::
  "(string \<Rightarrow> json_result) \<Rightarrow> string \<Rightarrow> pyerr + (pydict option \<times> string option)" where
  "try_parse_json loads snippet = (case loads snippet of
       Decoded (PDict d) \<Rightarrow> Inr (Some d, None)
     | Decoded v \<Rightarrow> Inr (None, Some (''Parsed value is not a dict: '' @ type_name v))
     | JSONDecodeError msg \<Rightarrow> Inr (None, Some msg)
     | Raised e \<Rightarrow> Inl e)"

text \<open>
  \<^verbatim>\<open>_repair_invalid_escapes\<close>: a backslash that is followed neither by one of
  \<^verbatim>\<open>"\/bfnrt\<close> nor by \<^verbatim>\<open>u\<close> and four hex digits, and that is followed by a character other
  than a newline, is dropped.
\<close>

definition backslash :: char where
  "backslash = CHR 0x5C"

definition is_hex :: "char \<Rightarrow> bool" where
  "is_hex c = (py_isdigit c \<or> c \<in> set ''abcdefABCDEF'')"

definition valid_escape :: "char \<Rightarrow> string \<Rightarrow> bool" where
  "valid_escape d ds =
     (d \<in> set [CHR 0x22, backslash, CHR ''/'', CHR ''b'', CHR ''f'', CHR ''n'', CHR ''r'', CHR ''t'']
      \<or> (d = CHR ''u'' \<and> 4 \<le> length ds \<and> list_all is_hex (take 4 ds)))"

fun repair_invalid_escapes :: "string \<Rightarrow> string" where
  "repair_invalid_escapes (c # d # ds) =
     (if c = backslash \<and> \<not> valid_escape d ds \<and> d \<noteq> newline
      then d # repair_invalid_escapes ds
      else c # repair_invalid_escapes (d # ds))"
| "repair_invalid_escapes s = s"

text \<open>\<^verbatim>\<open>re.sub(r",\s*}", "}", s)\<close> and \<^verbatim>\<open>re.sub(r",\s*]", "]", s)\<close>, for the closing character.\<close>

function strip_trailing_commas :: "char \<Rightarrow> string \<Rightarrow> string" where
  "strip_trailing_commas close [] = []"
| "strip_trailing_commas close (c # cs) =
     (if c = CHR '','' \<and> dropWhile py_isspace cs \<noteq> [] \<and> hd (dropWhile py_isspace cs) = close
      then close # strip_trailing_commas close (tl (dropWhile py_isspace cs))
      else c # strip_trailing_commas close cs)"
  by pat_completeness auto
termination
proof (relation "measure (\<lambda>(close, s). length s)")
  fix close c :: char and cs :: string
  have "length (tl (dropWhile py_isspace cs)) \<le> length cs"
    by (metis length_tl length_dropWhile_le diff_le_self order_trans)
  then show "((close, tl (dropWhile py_isspace cs)), close, c # cs) \<in> measure (\<lambda>(close, s). length s)"
    by simp
qed simp_all

text \<open>
  \<^verbatim>\<open>_extract_partial_json\<close>: for each key the first place where
  \<^verbatim>\<open>"key"\s*:\s*(-?\d+\.?\d*|null)\<close> matches; the group is read by \<^verbatim>\<open>float\<close> unless it is
  \<^verbatim>\<open>null\<close>.
\<close>

definition match_number_or_null :: "string \<Rightarrow> string option" where
  "match_number_or_null s =
     (let sign = (if s \<noteq> [] \<and> hd s = CHR ''-'' then [CHR ''-''] else []);
          s0 = drop (length sign) s;
          ds = takeWhile py_isdigit s0
      in if ds \<noteq> [] then
           (let s1 = drop (length ds) s0;
                dot = (if s1 \<noteq> [] \<and> hd s1 = CHR ''.'' then [CHR ''.''] else []);
                fs = takeWhile py_isdigit (drop (length dot) s1)
            in Some (sign @ ds @ dot @ fs))
         else if py_startswith s ''null'' then Some ''null''
         else None)"

definition match_after_key :: "string \<Rightarrow> string option" where
  "match_after_key s =
     (let s1 = dropWhile py_isspace s in
      if s1 \<noteq> [] \<and> hd s1 = CHR '':'' then match_number_or_null (dropWhile py_isspace (tl s1))
      else None)"

fun search_key_value :: "string \<Rightarrow> string \<Rightarrow> string option" where
  "search_key_value lit [] = None"
| "search_key_value lit (c # cs) =
     (if py_startswith (c # cs) lit then
        (case match_after_key (drop (length lit) (c # cs)) of
           Some v \<Rightarrow> Some v
         | None \<Rightarrow> search_key_value lit cs)
      else search_key_value lit cs)"

fun partial_fields :: "string \<Rightarrow> string list \<Rightarrow> pydict \<Rightarrow> pydict" where
  "partial_fields raw [] out = out"
| "partial_fields raw (key # keys) out =
     (case search_key_value ([CHR 0x22] @ key @ [CHR 0x22]) raw of
        None \<Rightarrow> partial_fields raw keys out
      | Some val \<Rightarrow>
          if val = ''null'' then partial_fields raw keys (AList.update key PNone out)
          else (case py_float val of
                  None \<Rightarrow> partial_fields raw keys out
                | Some x \<Rightarrow> partial_fields raw keys (AList.update key (PFloat x) out)))"

definition extract_partial_json :: "string \<Rightarrow> pydict" where
  "extract_partial_json raw = partial_fields raw TOP_LEVEL_KEYS []"

text \<open>\<^verbatim>\<open>err and ("escape" in err.lower() or "Invalid" in err)\<close>\<close>

definition escape_error :: "string option \<Rightarrow> bool" where
  "escape_error err = (case err of
       None \<Rightarrow> False
     | Some e \<Rightarrow> e \<noteq> [] \<and> (py_in ''escape'' (py_lower e) \<or> py_in ''Invalid'' e))"

definition TRUNCATED_MSG :: string where
  "TRUNCATED_MSG = ''Truncated JSON; extracted partial metrics''"

definition NO_OBJECT_MSG :: string where
  "NO_OBJECT_MSG = ''No JSON object found in response''"

text \<open>
  The body of \<^verbatim>\<open>extract_json_from_response\<close> once a candidate \<open>snippet\<close> is found. Each
  call of \<^verbatim>\<open>_try_parse_json\<close> may let an exception of the parser through, which ends the
  run; the two escape repairs are tried only after an error that mentions an escape.
\<close>

definition try_repaired ::
  "(string \<Rightarrow> json_result) \<Rightarrow> string option \<Rightarrow> string \<Rightarrow> pyerr + pydict option" where
  "try_repaired loads err text =
     (if escape_error err
      then bind_err (try_parse_json loads (repair_invalid_escapes text)) (\<lambda>(data, _). Inr data)
      else Inr None)"

definition parse_with_repairs ::
  "(string \<Rightarrow> json_result) \<Rightarrow> string \<Rightarrow> pyerr + (pydict \<times> string option)" where
  "parse_with_repairs loads snippet =
     bind_err (try_parse_json loads snippet) (\<lambda>(data, err).
       case data of
         Some d \<Rightarrow> Inr (d, None)
       | None \<Rightarrow>
           bind_err (try_repaired loads err snippet) (\<lambda>data1.
             case data1 of
               Some d \<Rightarrow> Inr (d, None)
             | None \<Rightarrow>
                 (let fixed = strip_trailing_commas (CHR '']'')
                                (strip_trailing_commas (CHR ''}'') snippet)
                  in bind_err (try_parse_json loads fixed) (\<lambda>(data2, _).
                       case data2 of
                         Some d \<Rightarrow> Inr (d, None)
                       | None \<Rightarrow>
                           bind_err (try_repaired loads err fixed) (\<lambda>data3.
                             case data3 of
                               Some d \<Rightarrow> Inr (d, None)
                             | None \<Rightarrow> Inr ([], err))))))"

text \<open>The branch for a response without a candidate: the fields found in the raw text.\<close>

definition truncated_fallback :: "string \<Rightarrow> pydict \<times> string option" where
  "truncated_fallback raw =
     (let partial = extract_partial_json raw in
      if partial \<noteq> [] then (partial, Some TRUNCATED_MSG) else ([], Some NO_OBJECT_MSG))"

definition extract_json_from_response ::
  "(string \<Rightarrow> json_result) \<Rightarrow> string \<Rightarrow> pyerr + (pydict \<times> string option)" where
  "extract_json_from_response loads content =
     (let raw = py_strip content in
      bind_err (extract_first_json_object raw) (\<lambda>snippet.
        case snippet of
          None \<Rightarrow> Inr (truncated_fallback raw)
        | Some s \<Rightarrow> if s = [] then Inr (truncated_fallback raw) else parse_with_repairs loads s))"

text \<open>
  The kind \<^verbatim>\<open>evaluate_one\<close> passes to the unit reconciler together with a label hint:
  \<^verbatim>\<open>yield\<close>, or the canonical key the ground truth's label maps to.
\<close>

definition other_metric_kind :: "(pyval \<Rightarrow> string) \<Rightarrow> pyval \<Rightarrow> string" where
  "other_metric_kind repr_of ol =
     (if truthy ol then
        (let ol_str = py_str repr_of ol;
             norm = normalize_label_for_lookup ol_str;
             key1 = map_of OTHER_LABEL_TO_CANONICAL norm;
             key = (if key1 \<noteq> None \<and> key1 \<noteq> Some [] then key1
                    else map_of OTHER_LABEL_TO_CANONICAL
                           (py_replace_char (CHR '' '') (CHR ''_'') (canonicalize_label ol_str)))
         in case key of None \<Rightarrow> ''yield'' | Some k \<Rightarrow> if k \<noteq> [] then k else ''yield'')
      else ''yield'')"

section \<open>Ground-truth loader: layout detection of a workbook\<close>

text \<open>
  A workbook as \<^verbatim>\<open>openpyxl\<close> hands it over with \<^verbatim>\<open>values_only=True\<close>: sheets of rows
  of cell values. A cell is \<^verbatim>\<open>None\<close>, a string or a number; a date cell behaves as the
  string Python prints for it, since the loader only asks whether a cell is a number
  and otherwise reads \<^verbatim>\<open>str(cell)\<close>.
\<close>

record sheet =
  title :: string
  sheet_rows :: "pyval list list"

record workbook =
  worksheets :: "sheet list"
  active :: sheet

definition cell_looks_like_metric_label :: "(pyval \<Rightarrow> string) \<Rightarrow> pyval \<Rightarrow> bool" where
  "cell_looks_like_metric_label repr_of cell =
     (if cell = PNone then False
      else
        let s = py_upper (py_strip (py_str repr_of cell)) in
        if s = [] then False
        else py_in ''MOIC'' s \<or> py_in ''TVPI'' s \<or> py_in ''IRR'' s \<or> py_in ''DPI'' s)"

definition is_number :: "pyval \<Rightarrow> bool" where
  "is_number v = (case v of PBool _ \<Rightarrow> True | PInt _ \<Rightarrow> True | PFloat _ \<Rightarrow> True | _ \<Rightarrow> False)"

definition cell_looks_like_value :: "(pyval \<Rightarrow> string) \<Rightarrow> pyval \<Rightarrow> bool" where
  "cell_looks_like_value repr_of cell =
     (if cell = PNone then False
      else if is_number cell then True
      else
        let s = py_strip (py_str repr_of cell) in
        if s = [] \<or> py_lower s \<in> set [''n/a'', ''na'', ''null'', ''none'', []] then False
        else py_float (py_strip (py_remove_char (CHR ''x'')
               (py_remove_char (CHR ''%'') (py_remove_char (CHR '','') s)))) \<noteq> None)"

text \<open>\<^verbatim>\<open>rows[i]\<close> where the source has checked the length, and \<^verbatim>\<open>row[0] if row else None\<close>.\<close>

definition row_at :: "pyval list list \<Rightarrow> nat \<Rightarrow> pyval list" where
  "row_at rows i = (if i < length rows then rows ! i else [])"

definition first_cell :: "pyval list \<Rightarrow> pyval" where
  "first_cell row = (case row of [] \<Rightarrow> PNone | c # _ \<Rightarrow> c)"

definition header_of :: "(pyval \<Rightarrow> string) \<Rightarrow> pyval list \<Rightarrow> string list" where
  "header_of repr_of row =
     map (\<lambda>c. if c \<noteq> PNone then py_lower (py_strip (py_str repr_of c)) else []) row"

definition ID_COLS :: "string list" where
  "ID_COLS = [''pdf'', ''filename'', ''pdf_filename'', ''test_case_id'', ''name'', ''gtpdf'']"

text \<open>The loop that sets \<^verbatim>\<open>id_col\<close>: the place in the header of the first known name found there.\<close>

fun find_id_col :: "string list \<Rightarrow> string list \<Rightarrow> nat option" where
  "find_id_col header [] = None"
| "find_id_col header (id_name # names) =
     (if id_name \<in> set header
      then Some (length (takeWhile (\<lambda>h. h \<noteq> id_name) header))
      else find_id_col header names)"

definition value_in_row :: "(pyval \<Rightarrow> string) \<Rightarrow> pyval list \<Rightarrow> bool" where
  "value_in_row repr_of row = (case row of
       [] \<Rightarrow> False
     | c # cs \<Rightarrow> cell_looks_like_value repr_of c
                 \<or> (cs \<noteq> [] \<and> cell_looks_like_value repr_of (hd cs)))"

definition value_cells_in_row :: "(pyval \<Rightarrow> string) \<Rightarrow> pyval list \<Rightarrow> nat" where
  "value_cells_in_row repr_of row = length (filter (cell_looks_like_value repr_of) row)"

definition n_cols_of :: "pyval list list \<Rightarrow> nat" where
  "n_cols_of rows = foldr max (map length rows) 0"

definition HEADER_MSG :: string where
  "HEADER_MSG = ''Excel must have a GTPDF (or pdf/filename) column for document names, or use label-value layout. Found header: ''"

text \<open>
  The parsers of the four layouts are parameters: the claims are about which layout is
  chosen and when none is. Each returns the loaded ground truth or raises.
\<close>

record 'r layout_parsers =
  one_tab_per_document :: "sheet list \<Rightarrow> pyerr + 'r"
  standard_layout :: "string list \<Rightarrow> nat \<Rightarrow> pyval list list \<Rightarrow> pyerr + 'r"
  parse_alternating_label_value_ground_truth :: "pyval list list \<Rightarrow> pyerr + 'r"
  parse_transposed_ground_truth :: "pyval list list \<Rightarrow> pyerr + 'r"
  empty_ground_truth :: 'r

definition load_ground_truth_from_excel ::
  "(pyval \<Rightarrow> string) \<Rightarrow> 'r layout_parsers \<Rightarrow> workbook \<Rightarrow> pyerr + 'r" where
  "load_ground_truth_from_excel repr_of parsers wb =
     (let sheets = worksheets wb in
      if 2 \<le> length sheets then one_tab_per_document parsers sheets
      else
        (let rows = sheet_rows (active wb) in
         if rows = [] then Inr (empty_ground_truth parsers)
         else
           (let header = header_of repr_of (row_at rows 0) in
            case find_id_col header ID_COLS of
              Some id_col \<Rightarrow> standard_layout parsers header id_col rows
            | None \<Rightarrow>
                (let row0_label = first_cell (row_at rows 0);
                     row1_label = (if 1 < length rows then first_cell (row_at rows 1) else PNone);
                     n_cols = n_cols_of rows
                 in if cell_looks_like_metric_label repr_of row0_label \<and> 1 < length rows
                         \<and> value_in_row repr_of (row_at rows 1)
                    then parse_alternating_label_value_ground_truth parsers rows
                    else if cell_looks_like_metric_label repr_of row1_label \<and> 2 < length rows
                         \<and> value_in_row repr_of (row_at rows 2)
                    then (if 2 \<le> value_cells_in_row repr_of (row_at rows 2)
                          then parse_transposed_ground_truth parsers rows
                          else parse_alternating_label_value_ground_truth parsers rows)
                    else if cell_looks_like_metric_label repr_of row1_label \<and> 2 < n_cols
                    then parse_transposed_ground_truth parsers rows
                    else Inl (ValueErrorFound HEADER_MSG header)))))"

section \<open>Notions the properties are stated with\<close>

subsection \<open>Score\<close>

definition EXPECTED_KEYS :: "string list" where
  "EXPECTED_KEYS = [''net_irr'', ''net_moic'', ''net_dpi'', ''other_metric_value'']"

text \<open>A metric is in scope when the ground truth has a value for it.\<close>

definition in_scope :: "pydict \<Rightarrow> string \<Rightarrow> bool" where
  "in_scope gt k = (dict_get gt k \<noteq> PNone)"

definition count_in_scope :: "pydict \<Rightarrow> int" where
  "count_in_scope gt = int (length (filter (in_scope gt) EXPECTED_KEYS))"

text \<open>The sum of the match flags of the metrics in scope; \<open>ms\<close> lists the flags in the order of \<open>EXPECTED_KEYS\<close>.\<close>

definition matches_in_scope :: "pydict \<Rightarrow> int list \<Rightarrow> int" where
  "matches_in_scope gt ms =
     sum_list (map snd (filter (\<lambda>(k, m). in_scope gt k) (zip EXPECTED_KEYS ms)))"

definition overall_score :: "score_tuple \<Rightarrow> score" where
  "overall_score t = (case t of (_, _, _, _, _, _, s, _, _) \<Rightarrow> s)"

text \<open>
  "\<open>q\<close> rounded to 4 places is \<open>s\<close>": \<open>s\<close> is a multiple of \<open>1/10000\<close>, no multiple is nearer
  to \<open>q\<close>, and when \<open>q\<close> lies halfway between two multiples \<open>s\<close> is the even one (the rule
  of \<^verbatim>\<open>round\<close>).
\<close>

definition rounded_to_4_places :: "rat \<Rightarrow> rat \<Rightarrow> bool" where
  "rounded_to_4_places q s =
     (let n = \<lfloor>s * 10000\<rfloor> in
      of_int n = s * 10000 \<and> \<bar>s - q\<bar> * 20000 \<le> 1 \<and> (\<bar>s - q\<bar> * 20000 < 1 \<or> even n))"

subsection \<open>Canonical metrics\<close>

text \<open>An integer too large for a float: \<^verbatim>\<open>float\<close> raises OverflowError on it.\<close>

definition oversized :: "pyval \<Rightarrow> bool" where
  "oversized v = (case v of PInt i \<Rightarrow> float_limit \<le> \<bar>of_int i\<bar> | _ \<Rightarrow> False)"

definition py_isfinite :: "pyfloat \<Rightarrow> bool" where
  "py_isfinite x = (case x of Fin _ \<Rightarrow> True | _ \<Rightarrow> False)"

text \<open>
  The invariant of CanonicalMetrics as the specification words it: every key of the
  vocabulary, and each value absent or a finite number.
\<close>

definition canonical_metrics_inv :: "canon \<Rightarrow> bool" where
  "canonical_metrics_inv out =
     (map fst out = CANONICAL_KEYS
      \<and> list_all (\<lambda>v. case v of None \<Rightarrow> True | Some x \<Rightarrow> py_isfinite x) (map snd out))"

subsection \<open>Candidate pool\<close>

text \<open>
  The pool as the amended claim C2 describes it: the normalized values of the three
  top-level fields that are not absent, then the numbers of the three named arrays,
  then the numbers found in the raw response.
\<close>

definition top_level_part :: "pydict \<Rightarrow> pyfloat list" where
  "top_level_part d =
     concat (map (\<lambda>k. case normalize_value (dict_get d k) of Inr (Some x) \<Rightarrow> [x] | _ \<Rightarrow> [])
                 TOP_LEVEL_KEYS)"

definition item_part :: "pyval \<Rightarrow> pyfloat list" where
  "item_part item = (case item of
       PStr s \<Rightarrow> numbers_from_string s
     | PBool b \<Rightarrow> [Fin (if b then 1 else 0)]
     | PInt i \<Rightarrow> [Fin (of_int i)]
     | PFloat f \<Rightarrow> (if f = NaN then [] else [f])
     | _ \<Rightarrow> [])"

definition array_part :: "pydict \<Rightarrow> pyfloat list" where
  "array_part d =
     concat (map (\<lambda>k. case dict_get d k of PList arr \<Rightarrow> concat (map item_part arr) | _ \<Rightarrow> [])
                 ARRAY_KEYS)"

definition pool_as_amended :: "pydict \<Rightarrow> string \<Rightarrow> pyfloat list" where
  "pool_as_amended d raw = top_level_part d @ array_part d @ numbers_from_string raw"

text \<open>The claim C2 as stated asks that every numeric field at the top level is in the pool.\<close>

definition numeric_fields_in_pool :: "pydict \<Rightarrow> pyfloat list \<Rightarrow> bool" where
  "numeric_fields_in_pool d pool =
     list_all (\<lambda>v. case v of
                      PInt i \<Rightarrow> Fin (of_int i) \<in> set pool
                    | PFloat f \<Rightarrow> f \<in> set pool
                    | _ \<Rightarrow> True) (map snd d)"

text \<open>A value that makes the pool raise: a too-large integer, at the top level or in an array.\<close>

definition has_oversized :: "pyval \<Rightarrow> bool" where
  "has_oversized v = (oversized v \<or> (case v of PList arr \<Rightarrow> list_ex oversized arr | _ \<Rightarrow> False))"

subsection \<open>Unit reconciliation\<close>

text \<open>The metric kinds the docstring of \<^verbatim>\<open>unit_normalize_pred\<close> calls multiples.\<close>

definition MULTIPLES :: "string list" where
  "MULTIPLES = [''moic'', ''dpi'', ''tvpi'']"

text \<open>A label hint that speaks of basis points: it is given and, in lower case, contains \<^verbatim>\<open>bp\<close>.\<close>

definition mentions_bps :: "string option \<Rightarrow> bool" where
  "mentions_bps label_hint = (case label_hint of
       None \<Rightarrow> False
     | Some h \<Rightarrow> py_in ''bp'' (py_lower h))"

text \<open>The label hint \<^verbatim>\<open>evaluate_one\<close> passes with the kind of the other metric.\<close>

definition other_label_hint :: "(pyval \<Rightarrow> string) \<Rightarrow> pyval \<Rightarrow> string" where
  "other_label_hint repr_of ol = (if truthy ol then py_str repr_of ol else [])"


subsection \<open>Document matching\<close>

definition entry_metrics :: "gt_entry \<Rightarrow> pydict" where
  "entry_metrics e = (case e of (excel_key, excel_stem, metrics) \<Rightarrow> metrics)"

text \<open>Rule (2): the normalized key or stem of the entry equals the normalized candidate name or stem.\<close>

definition normalized_equal :: "string \<Rightarrow> string \<Rightarrow> gt_entry \<Rightarrow> bool" where
  "normalized_equal pdf_name pdf_stem e = (case e of (excel_key, excel_stem, metrics) \<Rightarrow>
     normalize_for_match excel_key = normalize_for_match pdf_name
     \<or> normalize_for_match excel_key = normalize_for_match pdf_stem
     \<or> normalize_for_match excel_stem = normalize_for_match pdf_name
     \<or> normalize_for_match excel_stem = normalize_for_match pdf_stem)"

text \<open>
  Rules (3) and (4) in the words of C4: containment in either direction where the shorter
  string has at least three characters, and every token of length at least three of the
  ground-truth alias in the set of tokens of the normalized candidate.
\<close>

definition contains_either :: "string \<Rightarrow> string \<Rightarrow> bool" where
  "contains_either a b = (3 \<le> min (length a) (length b) \<and> (py_in a b \<or> py_in b a))"

definition stated_substring :: "string \<Rightarrow> gt_entry \<Rightarrow> bool" where
  "stated_substring pdf_stem e = (case e of (excel_key, excel_stem, metrics) \<Rightarrow>
     contains_either (py_lower excel_stem) (py_lower pdf_stem)
     \<or> contains_either (py_lower excel_key) (py_lower pdf_stem))"

definition stated_token_overlap :: "string \<Rightarrow> gt_entry \<Rightarrow> bool" where
  "stated_token_overlap pdf_stem e = (case e of (excel_key, excel_stem, metrics) \<Rightarrow>
     (let excel_words = filter (\<lambda>w. 3 \<le> length w) (py_split_ws (normalize_for_match excel_key))
      in excel_words \<noteq> []
         \<and> list_all (\<lambda>w. w \<in> set (py_split_ws (normalize_for_match pdf_stem))) excel_words))"

text \<open>C4 as stated: the rules are ranked over the whole list, the first entry of the first rule that matches wins.\<close>

definition stated_match ::
  "string \<Rightarrow> string \<Rightarrow> (string \<times> pydict) list \<Rightarrow> gt_entry list \<Rightarrow> pydict option" where
  "stated_match pdf_name pdf_stem gt_lookup gtpdf_values =
     (case lookup_name_or_stem gt_lookup pdf_name pdf_stem of
        Some gt \<Rightarrow> Some gt
      | None \<Rightarrow>
          (case find (normalized_equal pdf_name pdf_stem) gtpdf_values of
             Some e \<Rightarrow> Some (entry_metrics e)
           | None \<Rightarrow>
               (case find (stated_substring pdf_stem) gtpdf_values of
                  Some e \<Rightarrow> Some (entry_metrics e)
                | None \<Rightarrow> map_option entry_metrics
                            (find (stated_token_overlap pdf_stem) gtpdf_values))))"

text \<open>
  What the loop asks of one entry: rule (2), or, for a ground-truth stem of at least three
  characters, containment between the lower-cased candidate stem and the lower-cased
  stem or key, or every word of at least three characters of the normalized key (there
  must be one) occurring inside the normalized candidate stem.
\<close>

definition entry_matches :: "string \<Rightarrow> string \<Rightarrow> gt_entry \<Rightarrow> bool" where
  "entry_matches pdf_name pdf_stem e = (case e of (excel_key, excel_stem, metrics) \<Rightarrow>
     normalized_equal pdf_name pdf_stem e
     \<or> (3 \<le> length excel_stem
        \<and> (py_in (py_lower excel_stem) (py_lower pdf_stem)
           \<or> py_in (py_lower pdf_stem) (py_lower excel_stem)
           \<or> py_in (py_lower excel_key) (py_lower pdf_stem)
           \<or> py_in (py_lower pdf_stem) (py_lower excel_key)
           \<or> (let excel_words = filter (\<lambda>w. 3 \<le> length w)
                                     (py_split_ws (normalize_for_match excel_key))
              in excel_words \<noteq> []
                 \<and> list_all (\<lambda>w. py_in w (normalize_for_match pdf_stem)) excel_words))))"

subsection \<open>Structured-response extraction\<close>

text \<open>
  The error string of the first parse of a candidate; it decides whether the escape
  repairs are tried, and it is the error returned when nothing parses.
\<close>

definition first_error :: "(string \<Rightarrow> json_result) \<Rightarrow> string \<Rightarrow> string option" where
  "first_error loads snippet = (case try_parse_json loads snippet of
       Inr (data, err) \<Rightarrow> err
     | Inl e \<Rightarrow> None)"

text \<open>
  The texts \<^verbatim>\<open>extract_json_from_response\<close> hands to the parser for a candidate, in the order
  tried: the candidate, its escape repair, the candidate without trailing commas, and
  the escape repair of that; the repairs only after an error that mentions an escape.
\<close>

definition parse_attempts :: "(string \<Rightarrow> json_result) \<Rightarrow> string \<Rightarrow> string list" where
  "parse_attempts loads snippet =
     (let err = first_error loads snippet;
          fixed = strip_trailing_commas (CHR '']'') (strip_trailing_commas (CHR ''}'') snippet)
      in [snippet]
         @ (if escape_error err then [repair_invalid_escapes snippet] else [])
         @ [fixed]
         @ (if escape_error err then [repair_invalid_escapes fixed] else []))"

text \<open>
  The three outcomes of one attempt: it fails in the sense of the docstring of
  \<^verbatim>\<open>_try_parse_json\<close> (the pair of none and an error string is returned: a decode error, or
  a parsed value that is not a dict), it gives a dict, or the parser raises an exception
  that \<^verbatim>\<open>_try_parse_json\<close> does not catch.
\<close>

definition attempt_fails :: "(string \<Rightarrow> json_result) \<Rightarrow> string \<Rightarrow> bool" where
  "attempt_fails loads text = (case try_parse_json loads text of
       Inr (None, Some msg) \<Rightarrow> True
     | _ \<Rightarrow> False)"

definition attempt_raises :: "(string \<Rightarrow> json_result) \<Rightarrow> string \<Rightarrow> bool" where
  "attempt_raises loads text = (case loads text of Raised e \<Rightarrow> True | _ \<Rightarrow> False)"

text \<open>Attempts in order: the first dict ends the run, and so does the first exception.\<close>

fun first_success :: "(string \<Rightarrow> json_result) \<Rightarrow> string list \<Rightarrow> pyerr + pydict option" where
  "first_success loads [] = Inr None"
| "first_success loads (t # ts) = (case try_parse_json loads t of
       Inl e \<Rightarrow> Inl e
     | Inr (Some d, err) \<Rightarrow> Inr (Some d)
     | Inr (None, err) \<Rightarrow> first_success loads ts)"


subsection \<open>Layout detection\<close>

text \<open>The header row has none of the identifier column names.\<close>

definition no_identifier_column :: "(pyval \<Rightarrow> string) \<Rightarrow> pyval list list \<Rightarrow> bool" where
  "no_identifier_column repr_of rows =
     list_all (\<lambda>id_name. id_name \<notin> set (header_of repr_of (row_at rows 0))) ID_COLS"

text \<open>
  Rows \<open>i\<close> and \<open>i + 1\<close> (counted from 0) read as a label/value pair: row \<open>i\<close> starts with a
  metric label and one of the first two cells of row \<open>i + 1\<close> looks like a value.
\<close>

definition label_value_pair_at :: "(pyval \<Rightarrow> string) \<Rightarrow> pyval list list \<Rightarrow> nat \<Rightarrow> bool" where
  "label_value_pair_at repr_of rows i =
     (cell_looks_like_metric_label repr_of (first_cell (row_at rows i))
      \<and> Suc i < length rows
      \<and> value_in_row repr_of (row_at rows (Suc i)))"

text \<open>
  The sheet reads as a label column with document columns: the second row starts with a
  metric label and some row has more than two cells.
\<close>

definition label_column_layout :: "(pyval \<Rightarrow> string) \<Rightarrow> pyval list list \<Rightarrow> bool" where
  "label_column_layout repr_of rows =
     (1 < length rows
      \<and> cell_looks_like_metric_label repr_of (first_cell (row_at rows 1))
      \<and> 2 < n_cols_of rows)"

text \<open>Parsers that only name the layout chosen, and a workbook of one sheet.\<close>

definition layout_names :: "string layout_parsers" where
  "layout_names =
     \<lparr> one_tab_per_document = (\<lambda>sheets. Inr ''one tab per document''),
       standard_layout = (\<lambda>header id_col rows. Inr ''standard''),
       parse_alternating_label_value_ground_truth = (\<lambda>rows. Inr ''alternating''),
       parse_transposed_ground_truth = (\<lambda>rows. Inr ''transposed''),
       empty_ground_truth = ''empty'' \<rparr>"

definition one_sheet_workbook :: "pyval list list \<Rightarrow> workbook" where
  "one_sheet_workbook rows =
     \<lparr> worksheets = [\<lparr> title = ''Sheet1'', sheet_rows = rows \<rparr>],
       active = \<lparr> title = ''Sheet1'', sheet_rows = rows \<rparr> \<rparr>"

section \<open>Lemmas\<close>

subsection \<open>Exceptions and floats\<close>

lemma bind_err_Inr_iff: "bind_err m f = Inr y \<longleftrightarrow> (\<exists>x. m = Inr x \<and> f x = Inr y)"
  by (cases m) (simp_all add: bind_err_def)

lemma bind_err_Inr: "m = Inr x \<Longrightarrow> bind_err m f = f x"
  by (simp add: bind_err_def)

lemma float_limit_gt: "4 < float_limit"
  by (simp add: float_limit_def)

text \<open>Code equations that spare an evaluation the comparison with \<open>float_limit\<close>.\<close>

lemma mk_float_code [code]:
  "mk_float q =
     (if \<bar>q\<bar> < 1000000000 then Fin q
      else if float_limit \<le> q then PosInf else if q \<le> - float_limit then NegInf else Fin q)"
  by (simp add: mk_float_def float_limit_def)

lemma float_of_int_code [code]:
  "float_of_int i =
     (if \<bar>i\<bar> < 1000000000 then Inr (Fin (of_int i))
      else if float_limit \<le> \<bar>of_int i\<bar> then Inl OverflowError else Inr (Fin (of_int i)))"
proof (cases "\<bar>i\<bar> < 1000000000")
  case True
  then have "(of_int \<bar>i\<bar> :: rat) < of_int 1000000000"
    by (simp only: of_int_less_iff)
  then have "\<bar>of_int i :: rat\<bar> < 1000000000" by simp
  then show ?thesis using True by (simp add: float_of_int_def float_limit_def)
next
  case False
  then show ?thesis by (simp add: float_of_int_def)
qed

lemma truediv_small:
  assumes "0 \<le> a" and "a \<le> 4" and "1 \<le> b"
  shows "py_truediv a b = Inr (of_int a / of_int b)"
proof -
  have "\<bar>(of_int a :: rat) / of_int b\<bar> = of_int a / of_int b" using assms by simp
  also have "\<dots> \<le> of_int a" using assms
    by (simp add: divide_le_eq mult_le_cancel_left1)
  also have "\<dots> \<le> 4" using assms by simp
  finally have "\<bar>(of_int a :: rat) / of_int b\<bar> < float_limit" using float_limit_gt by simp
  then show ?thesis using assms by (simp add: py_truediv_def)
qed

lemma normalize_value_returns:
  "\<not> oversized v \<Longrightarrow> \<exists>x. normalize_value v = Inr x"
  by (cases v) (auto simp: normalize_value_def oversized_def float_of_int_def Let_def)

lemma dict_get_cases: "dict_get d k = PNone \<or> dict_get d k \<in> snd ` set d"
  by (auto simp: dict_get_def split: option.splits dest!: map_of_SomeD intro: rev_image_eqI)

lemma dict_get_small:
  "\<forall>v \<in> snd ` set d. \<not> oversized v \<Longrightarrow> \<not> oversized (dict_get d k)"
  using dict_get_cases [of d k] by (auto simp: oversized_def)

lemma py_or_small:
  "\<not> oversized a \<Longrightarrow> \<not> oversized b \<Longrightarrow> \<not> oversized (py_or a b)"
  by (simp add: py_or_def)

subsection \<open>The canonicalizer keeps the vocabulary\<close>

lemma set_normalized_returns:
  "\<not> oversized v \<Longrightarrow> \<exists>out'. set_normalized k v out = Inr out'"
  using normalize_value_returns [of v] by (auto simp: set_normalized_def)

lemma set_normalized_keys:
  assumes "set_normalized k v out = Inr out'" and "k \<in> set (map fst out)"
  shows "map fst out' = map fst out"
proof -
  obtain x where "out' = AList.update k x out"
    using assms(1) by (auto simp: set_normalized_def split: sum.splits)
  then show ?thesis using assms(2) by (simp add: update_keys)
qed

lemma named_fields_returns:
  "\<forall>v \<in> snd ` set d. \<not> oversized v \<Longrightarrow> \<exists>out'. named_fields d ks out = Inr out'"
proof (induction ks arbitrary: out)
  case Nil
  then show ?case by simp
next
  case (Cons k ks)
  obtain o1 where "set_normalized k (dict_get d k) out = Inr o1"
    using set_normalized_returns [OF dict_get_small [OF Cons.prems]] by blast
  then show ?case using Cons by simp
qed

lemma named_fields_keys:
  "named_fields d ks out = Inr out' \<Longrightarrow> set ks \<subseteq> set (map fst out) \<Longrightarrow>
   map fst out' = map fst out"
proof (induction ks arbitrary: out)
  case Nil
  then show ?case by simp
next
  case (Cons k ks)
  show ?case
  proof (cases "map_of d k \<noteq> None \<and> dict_get d k \<noteq> PNone")
    case True
    then obtain o1 where o1: "set_normalized k (dict_get d k) out = Inr o1"
      and rest: "named_fields d ks o1 = Inr out'"
      using Cons.prems(1) by (auto split: sum.splits)
    have k1: "map fst o1 = map fst out"
      using set_normalized_keys [OF o1] Cons.prems(2) by simp
    show ?thesis using Cons.IH [OF rest] Cons.prems(2) k1 by simp
  next
    case False
    then show ?thesis using Cons by auto
  qed
qed

lemma other_label_in_keys:
  assumes "map_of OTHER_LABEL_TO_CANONICAL x = Some k"
  shows "k \<in> set CANONICAL_KEYS"
proof -
  have "k \<in> snd ` set OTHER_LABEL_TO_CANONICAL"
    using assms by (auto dest!: map_of_SomeD intro: rev_image_eqI)
  moreover have "snd ` set OTHER_LABEL_TO_CANONICAL \<subseteq> set CANONICAL_KEYS"
    by (simp add: OTHER_LABEL_TO_CANONICAL_def CANONICAL_KEYS_def)
  ultimately show ?thesis by blast
qed

lemma set_if_unset_returns:
  "\<not> oversized v \<Longrightarrow> \<exists>out'. set_if_unset ck v out = Inr out'"
  using set_normalized_returns [of v] by (auto simp: set_if_unset_def split: option.splits)

lemma set_if_unset_keys:
  "set_if_unset (map_of OTHER_LABEL_TO_CANONICAL x) v out = Inr out' \<Longrightarrow>
   map fst out = CANONICAL_KEYS \<Longrightarrow> map fst out' = CANONICAL_KEYS"
  using other_label_in_keys [of x]
  by (auto simp: set_if_unset_def split: option.splits if_splits dest!: set_normalized_keys)

lemma other_metric_returns:
  assumes "\<forall>v \<in> snd ` set d. \<not> oversized v"
  shows "\<exists>out'. other_metric r d out = Inr out'"
proof -
  have ov: "\<not> oversized (dict_get d ''other_metric_value'')"
    by (rule dict_get_small [OF assms])
  show ?thesis
    unfolding other_metric_def Let_def
    using set_if_unset_returns [OF ov]
    by (auto split: sum.splits) (metis Inl_Inr_False)+
qed

lemma other_metric_keys:
  "other_metric r d out = Inr out' \<Longrightarrow> map fst out = CANONICAL_KEYS \<Longrightarrow>
   map fst out' = CANONICAL_KEYS"
  unfolding other_metric_def Let_def
  by (auto split: if_splits sum.splits dest: set_if_unset_keys)

lemma set_core_returns:
  "\<forall>v \<in> snd ` set d. \<not> oversized v \<Longrightarrow> \<exists>out'. set_core new old d out = Inr out'"
  unfolding set_core_def
  by (intro set_normalized_returns py_or_small dict_get_small)

lemma set_core_keys:
  "set_core new old d out = Inr out' \<Longrightarrow> map fst out = CANONICAL_KEYS \<Longrightarrow>
   new \<in> set CANONICAL_KEYS \<Longrightarrow> map fst out' = CANONICAL_KEYS"
  unfolding set_core_def using set_normalized_keys by fastforce

lemma all_absent_keys: "map fst all_absent = CANONICAL_KEYS"
  by (simp add: all_absent_def comp_def)

lemma new_schema_fields_mem: "set NEW_SCHEMA_FIELDS \<subseteq> set CANONICAL_KEYS"
  by (simp add: NEW_SCHEMA_FIELDS_def CANONICAL_KEYS_def)

lemma core_keys_mem:
  "''irr'' \<in> set CANONICAL_KEYS" "''moic'' \<in> set CANONICAL_KEYS"
  "''dpi'' \<in> set CANONICAL_KEYS" "''tvpi'' \<in> set CANONICAL_KEYS"
  by (simp_all add: CANONICAL_KEYS_def)

subsection \<open>Rounding to four places\<close>

text \<open>
  \<^verbatim>\<open>round(x, 4)\<close> gives a multiple of \<open>1/10000\<close> nearest to \<open>x\<close>, the even one at a tie, and
  this determines the result.
\<close>

lemma round_half_even_near:
  "\<bar>of_int (round_half_even y) - y\<bar> * 2 \<le> 1
   \<and> (\<bar>of_int (round_half_even y) - y\<bar> * 2 < 1 \<or> even (round_half_even y))"
proof -
  define f where "f = \<lfloor>y\<rfloor>"
  define r where "r = y - of_int f"
  have r0: "0 \<le> r" and r1: "r < 1"
    unfolding r_def f_def by linarith+
  have y: "y = of_int f + r" unfolding r_def by simp
  have e: "round_half_even y =
      (if r < 1 / 2 then f else if 1 / 2 < r then f + 1 else if even f then f else f + 1)"
    by (simp only: round_half_even_def Let_def r_def f_def)
  consider "r < 1 / 2" | "1 / 2 < r" | "r = 1 / 2" by linarith
  then show ?thesis
  proof cases
    case 1
    then have "round_half_even y = f" unfolding e by simp
    then show ?thesis using 1 r0 unfolding y by simp
  next
    case 2
    then have "round_half_even y = f + 1" unfolding e by simp
    then show ?thesis using 2 r1 unfolding y by simp
  next
    case 3
    then have e': "round_half_even y = (if even f then f else f + 1)" unfolding e by simp
    have "even (round_half_even y)" unfolding e' by simp
    moreover have "\<bar>of_int (if even f then f else f + 1) - (of_int f + r)\<bar> * 2 \<le> 1"
      unfolding 3 by simp
    then have "\<bar>of_int (round_half_even y) - y\<bar> * 2 \<le> 1"
      unfolding e' y [symmetric] .
    ultimately show ?thesis by simp
  qed
qed

lemma scaled_distance:
  "\<bar>of_int n / 10000 - (q :: rat)\<bar> * 20000 = \<bar>of_int n - q * 10000\<bar> * 2"
proof -
  have "of_int n / 10000 - q = (of_int n - q * 10000) / 10000"
    by (simp add: diff_divide_distrib)
  then have "\<bar>of_int n / 10000 - q\<bar> = \<bar>of_int n - q * 10000\<bar> / 10000"
    by (simp only: abs_divide)
  then show ?thesis by simp
qed

lemma py_round4_rounds: "rounded_to_4_places x (py_round4 x)"
proof -
  let ?n = "round_half_even (x * 10000)"
  have s: "py_round4 x = of_int ?n / 10000"
    by (simp add: py_round4_def)
  have f: "\<lfloor>(of_int ?n / 10000 :: rat) * 10000\<rfloor> = ?n" by simp
  show ?thesis
    unfolding rounded_to_4_places_def Let_def s f scaled_distance
    using round_half_even_near [of "x * 10000"] by simp
qed

lemma adjacent_tie:
  fixes a x :: rat
  assumes "\<bar>a - x\<bar> * 2 \<le> 1" and "\<bar>a + 1 - x\<bar> * 2 \<le> 1"
  shows "\<bar>a - x\<bar> * 2 = 1 \<and> \<bar>a + 1 - x\<bar> * 2 = 1"
proof -
  have "\<bar>a - x\<bar> \<le> 1 / 2" "\<bar>a + 1 - x\<bar> \<le> 1 / 2" using assms by simp_all
  then have "x - a \<le> 1 / 2" "a + 1 - x \<le> 1 / 2" unfolding abs_le_iff by simp_all
  then have "x = a + 1 / 2" by linarith
  then show ?thesis by simp
qed

lemma rounded_to_4_places_unique:
  assumes "rounded_to_4_places q s" and "rounded_to_4_places q t"
  shows "s = t"
proof -
  define m where "m = \<lfloor>s * 10000\<rfloor>"
  define n where "n = \<lfloor>t * 10000\<rfloor>"
  have m: "of_int m = s * 10000" and n: "of_int n = t * 10000"
    using assms unfolding rounded_to_4_places_def Let_def m_def n_def by blast+
  have sm: "s = of_int m / 10000" and tn: "t = of_int n / 10000"
    unfolding m n by simp_all
  have ds: "\<bar>of_int m - q * 10000\<bar> * 2 \<le> 1" and es: "\<bar>of_int m - q * 10000\<bar> * 2 < 1 \<or> even m"
    using assms(1)
    unfolding rounded_to_4_places_def Let_def m_def [symmetric]
    unfolding sm scaled_distance by blast+
  have dt: "\<bar>of_int n - q * 10000\<bar> * 2 \<le> 1" and et: "\<bar>of_int n - q * 10000\<bar> * 2 < 1 \<or> even n"
    using assms(2)
    unfolding rounded_to_4_places_def Let_def n_def [symmetric]
    unfolding tn scaled_distance by blast+
  have "\<bar>(of_int m :: rat) - of_int n\<bar> \<le> 1"
  proof -
    have "\<bar>(of_int m :: rat) - q * 10000\<bar> \<le> 1 / 2" "\<bar>(of_int n :: rat) - q * 10000\<bar> \<le> 1 / 2"
      using ds dt by simp_all
    then show ?thesis unfolding abs_le_iff by linarith
  qed
  then have "\<bar>(of_int (m - n) :: rat)\<bar> \<le> 1" by simp
  then have c: "\<bar>m - n\<bar> \<le> 1" by (simp only: of_int_abs [symmetric] of_int_le_1_iff)
  have "m \<noteq> n + 1"
  proof
    assume h: "m = n + 1"
    have "\<bar>(of_int n :: rat) - q * 10000\<bar> * 2 = 1 \<and> \<bar>(of_int n :: rat) + 1 - q * 10000\<bar> * 2 = 1"
      using dt ds unfolding h by (intro adjacent_tie) simp_all
    then have "even m" "even n" using es et unfolding h by simp_all
    then show False unfolding h by simp
  qed
  moreover have "n \<noteq> m + 1"
  proof
    assume h: "n = m + 1"
    have "\<bar>(of_int m :: rat) - q * 10000\<bar> * 2 = 1 \<and> \<bar>(of_int m :: rat) + 1 - q * 10000\<bar> * 2 = 1"
      using ds dt unfolding h by (intro adjacent_tie) simp_all
    then have "even m" "even n" using es et unfolding h by simp_all
    then show False unfolding h by simp
  qed
  ultimately have "m = n" using c by linarith
  then show ?thesis unfolding sm tn by simp
qed

lemma py_round4_mono_bounds:
  assumes "0 \<le> x" and "x \<le> 1"
  shows "0 \<le> py_round4 x" and "py_round4 x \<le> 1"
proof -
  let ?n = "round_half_even (x * 10000)"
  have near: "\<bar>of_int ?n - x * 10000\<bar> * 2 \<le> 1"
    using round_half_even_near [of "x * 10000"] by simp
  then have "\<bar>of_int ?n - x * 10000\<bar> \<le> 1 / 2" by simp
  then have b: "of_int ?n - x * 10000 \<le> 1 / 2" "x * 10000 - of_int ?n \<le> 1 / 2"
    unfolding abs_le_iff by simp_all
  have "(- 1 :: rat) < of_int ?n" using b assms by linarith
  then have "- 1 < ?n" by (metis of_int_less_iff of_int_minus of_int_1)
  then have n0: "0 \<le> ?n" by linarith
  have "(of_int ?n :: rat) < 10001" using b assms by linarith
  then have "?n < 10001" by (metis of_int_less_iff of_int_numeral)
  then have n1: "?n \<le> 10000" by linarith
  show "0 \<le> py_round4 x" using n0 by (simp add: py_round4_def)
  have "(of_int ?n :: rat) \<le> 10000" using n1 by (metis of_int_le_iff of_int_numeral)
  then show "py_round4 x \<le> 1" by (simp add: py_round4_def)
qed

subsection \<open>The candidate pool\<close>

lemma normalize_value_raises_iff: "(\<exists>e. normalize_value v = Inl e) \<longleftrightarrow> oversized v"
  by (cases v) (auto simp: normalize_value_def oversized_def float_of_int_def Let_def)

lemma top_level_numbers_spec:
  "top_level_numbers d ks = Inr ns \<Longrightarrow>
   ns = concat (map (\<lambda>k. case normalize_value (dict_get d k) of Inr (Some x) \<Rightarrow> [x] | _ \<Rightarrow> []) ks)"
proof (induction ks arbitrary: ns)
  case Nil
  then show ?case by simp
next
  case (Cons k ks)
  from Cons.prems obtain n ms where n: "normalize_value (dict_get d k) = Inr n"
    and ms: "top_level_numbers d ks = Inr ms"
    and ns: "ns = (case n of None \<Rightarrow> [] | Some x \<Rightarrow> [x]) @ ms"
    by (auto simp: bind_err_Inr_iff)
  show ?case using Cons.IH [OF ms] n ns by (cases n) simp_all
qed

lemma top_level_numbers_returns:
  "\<forall>v \<in> snd ` set d. \<not> oversized v \<Longrightarrow> \<exists>ns. top_level_numbers d ks = Inr ns"
proof (induction ks)
  case Nil
  then show ?case by simp
next
  case (Cons k ks)
  obtain n where "normalize_value (dict_get d k) = Inr n"
    using normalize_value_returns [OF dict_get_small [OF Cons.prems]] by blast
  then show ?case using Cons by (auto simp: bind_err_Inr_iff)
qed

lemma item_numbers_spec: "item_numbers item = Inr ns \<Longrightarrow> ns = item_part item"
  by (cases item) (auto simp: item_numbers_def item_part_def float_of_int_def split: if_splits)

lemma item_numbers_returns: "\<not> oversized item \<Longrightarrow> \<exists>ns. item_numbers item = Inr ns"
  by (cases item) (auto simp: item_numbers_def oversized_def float_of_int_def)

lemma items_numbers_spec:
  "items_numbers arr = Inr ns \<Longrightarrow> ns = concat (map item_part arr)"
proof (induction arr arbitrary: ns)
  case Nil
  then show ?case by simp
next
  case (Cons item arr)
  from Cons.prems obtain xs ys where "item_numbers item = Inr xs"
    and "items_numbers arr = Inr ys" and "ns = xs @ ys"
    by (auto simp: bind_err_Inr_iff)
  then show ?case using Cons.IH item_numbers_spec by simp
qed

lemma items_numbers_returns:
  "\<not> list_ex oversized arr \<Longrightarrow> \<exists>ns. items_numbers arr = Inr ns"
proof (induction arr)
  case Nil
  then show ?case by simp
next
  case (Cons item arr)
  then obtain xs where "item_numbers item = Inr xs"
    using item_numbers_returns [of item] by auto
  then show ?case using Cons by (auto simp: bind_err_Inr_iff)
qed

lemma array_numbers_spec:
  "array_numbers d ks = Inr ns \<Longrightarrow>
   ns = concat (map (\<lambda>k. case dict_get d k of PList arr \<Rightarrow> concat (map item_part arr) | _ \<Rightarrow> []) ks)"
proof (induction ks arbitrary: ns)
  case Nil
  then show ?case by simp
next
  case (Cons k ks)
  from Cons.prems obtain xs ys where
    xs: "(case dict_get d k of PList arr \<Rightarrow> items_numbers arr | _ \<Rightarrow> Inr []) = Inr xs"
    and ys: "array_numbers d ks = Inr ys" and ns: "ns = xs @ ys"
    by (auto simp: bind_err_Inr_iff)
  have "xs = (case dict_get d k of PList arr \<Rightarrow> concat (map item_part arr) | _ \<Rightarrow> [])"
    using xs items_numbers_spec by (cases "dict_get d k") auto
  then show ?case using Cons.IH [OF ys] ns by simp
qed

lemma dict_get_no_oversized:
  "\<forall>v \<in> snd ` set d. \<not> has_oversized v \<Longrightarrow> \<not> has_oversized (dict_get d k)"
  using dict_get_cases [of d k] by (auto simp: has_oversized_def oversized_def)

lemma array_numbers_returns:
  "\<forall>v \<in> snd ` set d. \<not> has_oversized v \<Longrightarrow> \<exists>ns. array_numbers d ks = Inr ns"
proof (induction ks)
  case Nil
  then show ?case by simp
next
  case (Cons k ks)
  have "\<exists>xs. (case dict_get d k of PList arr \<Rightarrow> items_numbers arr | _ \<Rightarrow> Inr []) = Inr xs"
    using dict_get_no_oversized [OF Cons.prems, of k] items_numbers_returns
    by (cases "dict_get d k") (auto simp: has_oversized_def)
  then show ?case using Cons by (auto simp: bind_err_Inr_iff)
qed

subsection \<open>Label hints and the kind of the other metric\<close>

lemma py_in_bps_bp: "py_in ''bps'' s \<Longrightarrow> py_in ''bp'' s"
proof (induction s)
  case Nil
  then show ?case by simp
next
  case (Cons c cs)
  have "py_startswith (c # cs) ''bps'' \<Longrightarrow> py_startswith (c # cs) ''bp''"
    by (cases cs) (auto simp: py_startswith_def)
  then show ?case using Cons by auto
qed

lemma other_label_values:
  "map_of OTHER_LABEL_TO_CANONICAL k = Some v \<Longrightarrow> v \<in> snd ` set OTHER_LABEL_TO_CANONICAL"
  by (metis map_of_SomeD image_eqI snd_conv)

lemma other_label_values_no_multiple:
  "v \<in> snd ` set OTHER_LABEL_TO_CANONICAL \<Longrightarrow> v \<notin> set MULTIPLES"
  unfolding OTHER_LABEL_TO_CANONICAL_def MULTIPLES_def by auto

lemma other_metric_kind_cases:
  "other_metric_kind repr_of ol = ''yield''
   \<or> other_metric_kind repr_of ol \<in> snd ` set OTHER_LABEL_TO_CANONICAL"
  unfolding other_metric_kind_def Let_def
  by (auto split: option.splits dest: other_label_values)

lemma other_metric_kind_no_multiple: "other_metric_kind repr_of ol \<notin> set MULTIPLES"
proof -
  have "''yield'' \<notin> set MULTIPLES" by (simp add: MULTIPLES_def)
  then show ?thesis
    using other_metric_kind_cases [of repr_of ol] other_label_values_no_multiple by metis
qed


subsection \<open>The extractor returns\<close>

lemma py_startswith_in: "py_startswith s p \<Longrightarrow> py_in p s"
  by (cases s) (auto simp: py_startswith_def)

lemma py_in_append_left: "py_in sub s \<Longrightarrow> py_in sub (a @ s)"
  by (induction a) auto

lemma py_startswith_append: "py_startswith s (p @ q) \<Longrightarrow> \<exists>r. s = p @ q @ r"
  unfolding py_startswith_def by (metis append_take_drop_id append.assoc)

lemma py_find_None_iff: "py_find s sub = None \<longleftrightarrow> \<not> py_in sub s"
  by (induction s) (auto simp: py_startswith_def)

lemma json_marker_found:
  assumes "py_startswith line ''json:'' \<or> py_startswith line ''```json''"
  shows "py_find line ''json'' \<noteq> None"
proof -
  have "py_in ''json'' line"
  proof -
    from assms consider "py_startswith line (''json'' @ '':'')" | "py_startswith line (''```'' @ ''json'')"
      by auto
    then show ?thesis
    proof cases
      case 1
      then obtain r where "line = ''json'' @ '':'' @ r"
        using py_startswith_append by blast
      then have "py_startswith line ''json''" by (simp add: py_startswith_def)
      then show ?thesis by (rule py_startswith_in)
    next
      case 2
      then obtain r where l: "line = ''```'' @ ''json'' @ r"
        using py_startswith_append by blast
      have "py_startswith (''json'' @ r) ''json''" by (simp add: py_startswith_def)
      then have "py_in ''json'' (''json'' @ r)" by (rule py_startswith_in)
      then show ?thesis unfolding l by (rule py_in_append_left)
    qed
  qed
  then show ?thesis by (simp add: py_find_None_iff)
qed

lemma strip_junk_lines_returns: "\<exists>r. strip_junk_lines ls = Inr r"
proof (induction ls rule: strip_junk_lines.induct)
  case 1
  then show ?case by simp
next
  case (2 l ls)
  let ?line = "py_lower (py_strip l)"
  show ?case
  proof (cases "?line = [] \<or> ?line \<in> set JUNK_LINES")
    case True
    then show ?thesis using 2(1) by (simp add: Let_def)
  next
    case junk: False
    show ?thesis
    proof (cases "py_startswith ?line ''json:'' \<or> py_startswith ?line ''```json''")
      case True
      then obtain i where i: "py_find ?line ''json'' = Some i"
        using json_marker_found by blast
      show ?thesis
      proof (cases "py_strip (drop (i + 4) (py_strip l)) = []")
        case e: True
        show ?thesis
          using 2(2) [OF refl junk True i refl e] junk True i e
          by (simp add: Let_def)
      next
        case e: False
        show ?thesis
          using 2(3) [OF refl junk True i refl e] junk True i e
          by (simp add: Let_def)
      qed
    next
      case False
      then show ?thesis using junk by (simp add: Let_def)
    qed
  qed
qed

lemma brace_span_bounds: "brace_span depth s = Some n \<Longrightarrow> 1 \<le> n \<and> n \<le> length s"
  by (induction s arbitrary: depth n) (auto split: if_splits)

lemma first_balanced_object_nonempty: "first_balanced_object text \<noteq> Some []"
proof (cases "py_find text ''{''")
  case None
  then show ?thesis by (simp add: first_balanced_object_def py_find_int_def)
next
  case (Some i)
  show ?thesis
  proof (cases "brace_span 0 (drop i text)")
    case None
    then show ?thesis using Some by (simp add: first_balanced_object_def py_find_int_def)
  next
    case n: (Some n)
    then have b: "1 \<le> n" "n \<le> length (drop i text)"
      using brace_span_bounds by blast+
    have sl: "py_slice text (int i) (int i + int n) = take n (drop i text)"
      by (simp add: py_slice_def nat_add_distrib)
    have "take n (drop i text) \<noteq> []" using b by auto
    then show ?thesis
      using Some n sl by (simp add: first_balanced_object_def py_find_int_def)
  qed
qed

lemma strip_json_prefixed_junk_returns: "\<exists>r. strip_json_prefixed_junk text = Inr r"
proof -
  obtain ls where "strip_junk_lines (py_split_nl text) = Inr ls"
    using strip_junk_lines_returns by blast
  then show ?thesis by (simp add: strip_json_prefixed_junk_def bind_err_def)
qed

lemma extract_first_json_object_returns:
  "\<exists>r. extract_first_json_object text = Inr r \<and> r \<noteq> Some []"
proof -
  obtain t where "strip_json_prefixed_junk (fenced_text (py_strip text)) = Inr t"
    using strip_json_prefixed_junk_returns by blast
  then show ?thesis
    using first_balanced_object_nonempty [of t]
    by (simp add: extract_first_json_object_def bind_err_def)
qed

subsection \<open>Parse attempts and partial fields\<close>

lemma try_parse_json_cases:
  "try_parse_json loads s = Inl e \<longleftrightarrow> loads s = Raised e"
  "try_parse_json loads s = Inr (Some d, err) \<longleftrightarrow> loads s = Decoded (PDict d) \<and> err = None"
  "try_parse_json loads s = Inr (None, err) \<longleftrightarrow>
     (\<exists>msg. err = Some msg \<and>
        (loads s = JSONDecodeError msg
         \<or> (\<exists>v. loads s = Decoded v \<and> (\<forall>d. v \<noteq> PDict d)
                \<and> msg = ''Parsed value is not a dict: '' @ type_name v)))"
  by (auto simp: try_parse_json_def split: json_result.splits pyval.splits)

lemma attempt_fails_iff:
  "attempt_fails loads s \<longleftrightarrow> (\<exists>msg. try_parse_json loads s = Inr (None, Some msg))"
  by (auto simp: attempt_fails_def split: sum.splits option.splits prod.splits)

lemma try_repaired_eq:
  "try_repaired loads err text =
     (if escape_error err then first_success loads [repair_invalid_escapes text] else Inr None)"
  by (auto simp: try_repaired_def bind_err_def split: sum.splits option.splits prod.splits)

lemma first_success_append:
  "first_success loads (xs @ ys) = (case first_success loads xs of
       Inl e \<Rightarrow> Inl e
     | Inr (Some d) \<Rightarrow> Inr (Some d)
     | Inr None \<Rightarrow> first_success loads ys)"
  by (induction xs) (auto split: sum.splits option.splits prod.splits)

lemma parse_with_repairs_attempts:
  "parse_with_repairs loads snippet =
     (case first_success loads (parse_attempts loads snippet) of
        Inl e \<Rightarrow> Inl e
      | Inr (Some d) \<Rightarrow> Inr (d, None)
      | Inr None \<Rightarrow> Inr ([], first_error loads snippet))"
proof (cases "try_parse_json loads snippet")
  case (Inl e)
  then show ?thesis
    by (simp add: parse_with_repairs_def parse_attempts_def Let_def bind_err_def)
next
  case (Inr r)
  obtain data err where r: "r = (data, err)" by (cases r)
  show ?thesis
  proof (cases data)
    case (Some d)
    then show ?thesis
      using Inr r by (simp add: parse_with_repairs_def parse_attempts_def Let_def bind_err_def)
  next
    case None
    have fe: "first_error loads snippet = err"
      using Inr r by (simp add: first_error_def)
    show ?thesis
      using Inr r None
      by (auto simp: parse_with_repairs_def parse_attempts_def Let_def bind_err_def fe
            try_repaired_eq split: sum.splits option.splits prod.splits)
  qed
qed


lemma first_success_no_raise:
  "list_all (\<lambda>t. \<not> attempt_raises loads t) ts \<Longrightarrow> \<exists>r. first_success loads ts = Inr r"
  by (induction ts)
     (auto simp: attempt_raises_def try_parse_json_def split: json_result.splits pyval.splits)

lemma first_success_Some:
  "first_success loads ts = Inr (Some d) \<Longrightarrow> \<exists>t \<in> set ts. loads t = Decoded (PDict d)"
  by (induction ts)
     (auto simp: try_parse_json_def split: json_result.splits pyval.splits)

lemma first_success_head_raises:
  "loads t = Raised e \<Longrightarrow> first_success loads (t # ts) = Inl e"
  by (simp add: try_parse_json_def)






lemma set_map_filter_iff: "y \<in> set (List.map_filter f xs) \<longleftrightarrow> (\<exists>x \<in> set xs. f x = Some y)"
  by (induction xs) (auto simp: map_filter_simps split: option.splits)

lemma map_filter_empty_iff: "List.map_filter f xs = [] \<longleftrightarrow> list_all (\<lambda>x. f x = None) xs"
  by (induction xs) (auto simp: map_filter_simps split: option.splits)


lemma parse_attempts_head: "\<exists>ts. parse_attempts loads snippet = snippet # ts"
  by (simp add: parse_attempts_def Let_def)

subsection \<open>Candidates that are one braced line\<close>

lemma py_in_set: "py_in sub s \<Longrightarrow> set sub \<subseteq> set s"
proof (induction s)
  case Nil
  then show ?case by simp
next
  case (Cons c cs)
  from Cons.prems consider "py_startswith (c # cs) sub" | "py_in sub cs" by auto
  then show ?case
  proof cases
    case 1
    then have "sub = take (length sub) (c # cs)" by (simp add: py_startswith_def)
    then have "set sub \<subseteq> set (c # cs)" by (metis set_take_subset)
    then show ?thesis .
  next
    case 2
    then show ?thesis using Cons.IH by auto
  qed
qed

lemma split_nl_acc_no_newline: "newline \<notin> set s \<Longrightarrow> split_nl_acc w s = [rev w @ s]"
  by (induction s arbitrary: w) auto

lemma brace_span_plain:
  "CHR ''{'' \<notin> set body \<Longrightarrow> CHR ''}'' \<notin> set body \<Longrightarrow>
   brace_span 1 (body @ ''}'') = Some (Suc (length body))"
  by (induction body) auto

lemma py_strip_braced: "py_strip (CHR ''{'' # body @ ''}'') = CHR ''{'' # body @ ''}''"
proof -
  have a: "\<not> py_isspace (CHR ''{'')" and b: "\<not> py_isspace (CHR ''}'')"
    by code_simp+
  show ?thesis unfolding py_strip_def using a b by simp
qed

lemma lower_open_brace: "lower_char (CHR ''{'') = CHR ''{''"
  by code_simp

text \<open>
  A text from an opening brace to a closing brace, with no brace, no backtick and no
  line break between them, is the candidate.
\<close>

lemma extract_first_json_object_braced:
  assumes plain: "set body \<inter> {CHR ''{'', CHR ''}'', CHR 0x60, newline} = {}"
    and low: "CHR 0x60 \<notin> lower_char ` set body"
  shows "extract_first_json_object (CHR ''{'' # body @ ''}'') = Inr (Some (CHR ''{'' # body @ ''}''))"
proof -
  let ?t = "CHR ''{'' # body @ ''}''"
  have st: "py_strip ?t = ?t" by (rule py_strip_braced)
  have tick: "CHR 0x60 \<notin> set ?t" using plain by auto
  have ltick: "CHR 0x60 \<notin> set (py_lower ?t)"
  proof -
    have "lower_char (CHR ''}'') = CHR ''}''" by code_simp
    then show ?thesis using low by (auto simp: py_lower_def lower_open_brace)
  qed
  have f1: "\<not> py_in ''```json'' (py_lower ?t)"
    using py_in_set [of "''```json''" "py_lower ?t"] ltick by auto
  have f2: "\<not> py_in ''```'' ?t"
    using py_in_set [of "''```''" ?t] tick by auto
  have fen: "fenced_text ?t = ?t"
    using f1 f2 by (simp only: fenced_text_def if_False)
  have nl: "newline \<notin> set ?t"
    using plain by (auto simp: newline_def)
  have sp: "py_split_nl ?t = [?t]"
    unfolding py_split_nl_def using split_nl_acc_no_newline [OF nl, of "[]"] by simp
  obtain rest where line: "py_lower (py_strip ?t) = CHR ''{'' # rest"
    unfolding st by (simp add: py_lower_def lower_open_brace)
  have j1: "CHR ''{'' # rest \<notin> set JUNK_LINES" by (simp add: JUNK_LINES_def)
  have j2: "\<not> py_startswith (CHR ''{'' # rest) ''json:''"
    and j3: "\<not> py_startswith (CHR ''{'' # rest) ''```json''"
    by (simp_all add: py_startswith_def)
  have sj: "strip_junk_lines [?t] = Inr [?t]"
    using j1 j2 j3 by (simp add: Let_def line del: py_strip_def)
  have junk: "strip_json_prefixed_junk ?t = Inr ?t"
    by (simp add: strip_json_prefixed_junk_def sp sj bind_err_def st del: strip_junk_lines.simps)
  have fnd: "py_find_int ?t ''{'' = 0"
    by (simp add: py_find_int_def py_startswith_def)
  have nb: "CHR ''{'' \<notin> set body" "CHR ''}'' \<notin> set body" using plain by auto
  have bs: "brace_span 0 ?t = Some (Suc (Suc (length body)))"
    using brace_span_plain [OF nb] by simp
  have sl: "py_slice ?t 0 (0 + int (Suc (Suc (length body)))) = ?t"
    by (simp add: py_slice_def)
  have fb: "first_balanced_object ?t = Some ?t"
    unfolding first_balanced_object_def Let_def fnd using bs sl by simp
  show ?thesis
    unfolding extract_first_json_object_def st fen junk bind_err_def using fb by simp
qed

subsection \<open>Layout detection\<close>

lemma find_id_col_None_iff:
  "find_id_col header names = None \<longleftrightarrow> list_all (\<lambda>n. n \<notin> set header) names"
  by (induction names) auto

lemma label_of_None: "\<not> cell_looks_like_metric_label repr_of PNone"
  by (simp add: cell_looks_like_metric_label_def)

section \<open>The claims\<close>

subsection \<open>C1: the score is "not applicable" exactly when nothing is expected\<close>

text \<open>
  C1. When the four expected values \<^verbatim>\<open>net_irr\<close>, \<^verbatim>\<open>net_moic\<close>, \<^verbatim>\<open>net_dpi\<close> and
  \<^verbatim>\<open>other_metric_value\<close> are all absent from the ground truth, the score computation
  returns, whatever the match flags, the not-applicable marker: no metric in scope,
  \<^verbatim>\<open>no_metrics_in_scope\<close> true, \<^verbatim>\<open>overall_score_is_na = 1\<close> and the empty string as score,
  which is neither the number 0 nor the number 1. When at least one expected value is
  present and the match flags are the binary flags of the scorer, the denominator is the
  positive count of metrics in scope, the numerator the sum of the match flags in scope,
  the marker is off, and the score is a number between 0 and 1 that is the ratio of
  numerator and denominator rounded to four places: a multiple of \<open>1/10000\<close> at distance
  at most \<open>1/20000\<close> from the ratio, the even multiple at a tie.
\<close>

theorem score_not_applicable_iff_nothing_expected:
  "(list_all (\<lambda>k. dict_get gt k = PNone) EXPECTED_KEYS \<longrightarrow>
      (\<exists>t. compute_score_from_gt_and_matches gt irr_match moic_match dpi_match other_match = Inr t
         \<and> t = (False, False, False, False, 0, 0, ScoreText [], True, 1)
         \<and> overall_score t \<noteq> ScoreNum 0 \<and> overall_score t \<noteq> ScoreNum 1))
   \<and> (\<not> list_all (\<lambda>k. dict_get gt k = PNone) EXPECTED_KEYS
       \<and> set [irr_match, moic_match, dpi_match, other_match] \<subseteq> {0, 1} \<longrightarrow>
      0 < count_in_scope gt
      \<and> (\<exists>s. compute_score_from_gt_and_matches gt irr_match moic_match dpi_match other_match
               = Inr (in_scope gt ''net_irr'', in_scope gt ''net_moic'', in_scope gt ''net_dpi'',
                      in_scope gt ''other_metric_value'', count_in_scope gt,
                      matches_in_scope gt [irr_match, moic_match, dpi_match, other_match],
                      ScoreNum s, False, 0)
             \<and> rounded_to_4_places
                  (of_int (matches_in_scope gt [irr_match, moic_match, dpi_match, other_match])
                   / of_int (count_in_scope gt)) s
             \<and> 0 \<le> s \<and> s \<le> 1))"
proof (intro conjI impI)
  assume "list_all (\<lambda>k. dict_get gt k = PNone) EXPECTED_KEYS"
  then show "\<exists>t. compute_score_from_gt_and_matches gt irr_match moic_match dpi_match other_match = Inr t
         \<and> t = (False, False, False, False, 0, 0, ScoreText [], True, 1)
         \<and> overall_score t \<noteq> ScoreNum 0 \<and> overall_score t \<noteq> ScoreNum 1"
    by (simp add: compute_score_from_gt_and_matches_def EXPECTED_KEYS_def overall_score_def)
next
  let ?num = "(if in_scope gt ''net_irr'' then irr_match else 0)
            + (if in_scope gt ''net_moic'' then moic_match else 0)
            + (if in_scope gt ''net_dpi'' then dpi_match else 0)
            + (if in_scope gt ''other_metric_value'' then other_match else 0)"
  let ?den = "(if in_scope gt ''net_irr'' then 1 else 0)
            + (if in_scope gt ''net_moic'' then 1 else 0)
            + (if in_scope gt ''net_dpi'' then 1 else 0)
            + (if in_scope gt ''other_metric_value'' then 1 else (0::int))"
  let ?q = "of_int ?num / of_int ?den :: rat"
  assume a: "\<not> list_all (\<lambda>k. dict_get gt k = PNone) EXPECTED_KEYS
       \<and> set [irr_match, moic_match, dpi_match, other_match] \<subseteq> {0, 1}"
  then have flags: "set [irr_match, moic_match, dpi_match, other_match] \<subseteq> {0, 1}"
    and present: "\<not> list_all (\<lambda>k. dict_get gt k = PNone) EXPECTED_KEYS"
    by simp_all
  have num: "matches_in_scope gt [irr_match, moic_match, dpi_match, other_match] = ?num"
    by (simp add: matches_in_scope_def EXPECTED_KEYS_def)
  have den: "count_in_scope gt = ?den"
    by (simp add: count_in_scope_def EXPECTED_KEYS_def)
  have n0: "0 \<le> ?num" and n4: "?num \<le> 4" and nd: "?num \<le> ?den" using flags by auto
  have d1: "1 \<le> ?den"
    using present by (auto simp: EXPECTED_KEYS_def in_scope_def)
  have dz: "?den \<noteq> 0" using d1 by linarith
  show "0 < count_in_scope gt" unfolding den using d1 by linarith
  have q: "py_truediv ?num ?den = Inr ?q"
    by (rule truediv_small [OF n0 n4 d1])
  have c: "compute_score_from_gt_and_matches gt irr_match moic_match dpi_match other_match =
      Inr (in_scope gt ''net_irr'', in_scope gt ''net_moic'', in_scope gt ''net_dpi'',
           in_scope gt ''other_metric_value'', ?den, ?num, ScoreNum (py_round4 ?q), False, 0)"
    unfolding compute_score_from_gt_and_matches_def Let_def in_scope_def [symmetric]
    using q dz by simp
  have q0: "0 \<le> ?q" and q1: "?q \<le> 1"
  proof -
    have "(0::rat) < of_int ?den" using d1 by simp
    moreover have "(0::rat) \<le> of_int ?num" using n0 by simp
    moreover have "(of_int ?num :: rat) \<le> of_int ?den" using nd by (simp only: of_int_le_iff)
    ultimately show "0 \<le> ?q" "?q \<le> 1" by (simp_all add: divide_le_eq)
  qed
  have r0: "0 \<le> py_round4 ?q" and r1: "py_round4 ?q \<le> 1"
    by (rule py_round4_mono_bounds [OF q0 q1])+
  show "\<exists>s. compute_score_from_gt_and_matches gt irr_match moic_match dpi_match other_match
               = Inr (in_scope gt ''net_irr'', in_scope gt ''net_moic'', in_scope gt ''net_dpi'',
                      in_scope gt ''other_metric_value'', count_in_scope gt,
                      matches_in_scope gt [irr_match, moic_match, dpi_match, other_match],
                      ScoreNum s, False, 0)
             \<and> rounded_to_4_places
                  (of_int (matches_in_scope gt [irr_match, moic_match, dpi_match, other_match])
                   / of_int (count_in_scope gt)) s
             \<and> 0 \<le> s \<and> s \<le> 1"
    unfolding num den
    using c py_round4_rounds [of ?q] r0 r1 by blast
qed

text \<open>
  Two of three expected values matched give 0.6667, one of three gives 0.3333; with
  nothing expected the marker is returned also when every flag is 1.
\<close>

theorem score_not_applicable_witness:
  "compute_score_from_gt_and_matches
       [(''net_irr'', PNone), (''net_moic'', PNone), (''net_dpi'', PNone),
        (''other_metric_label'', PNone), (''other_metric_value'', PNone)] 1 1 1 1
     = Inr (False, False, False, False, 0, 0, ScoreText [], True, 1)
   \<and> compute_score_from_gt_and_matches
       [(''net_irr'', PFloat (Fin 12)), (''net_moic'', PFloat (Fin (3 / 2))),
        (''net_dpi'', PFloat (Fin (1 / 2))), (''other_metric_value'', PNone)] 1 0 1 1
     = Inr (True, True, True, False, 3, 2, ScoreNum (6667 / 10000), False, 0)
   \<and> rounded_to_4_places (2 / 3) (6667 / 10000)
   \<and> compute_score_from_gt_and_matches
       [(''net_irr'', PFloat (Fin 12)), (''net_moic'', PFloat (Fin (3 / 2))),
        (''net_dpi'', PFloat (Fin (1 / 2))), (''other_metric_value'', PNone)] 0 0 1 0
     = Inr (True, True, True, False, 3, 1, ScoreNum (3333 / 10000), False, 0)
   \<and> rounded_to_4_places (1 / 3) (3333 / 10000)"
proof -
  let ?na = "[(''net_irr'', PNone), (''net_moic'', PNone), (''net_dpi'', PNone),
        (''other_metric_label'', PNone), (''other_metric_value'', PNone)]"
  let ?gt = "[(''net_irr'', PFloat (Fin 12)), (''net_moic'', PFloat (Fin (3 / 2))),
        (''net_dpi'', PFloat (Fin (1 / 2))), (''other_metric_value'', PNone)]"
  have absent: "list_all (\<lambda>k. dict_get ?na k = PNone) EXPECTED_KEYS"
    by (simp add: EXPECTED_KEYS_def dict_get_def)
  have present: "\<not> list_all (\<lambda>k. dict_get ?gt k = PNone) EXPECTED_KEYS"
    by (simp add: EXPECTED_KEYS_def dict_get_def)
  have c: "count_in_scope ?gt = 3"
    by (simp add: count_in_scope_def EXPECTED_KEYS_def in_scope_def dict_get_def)
  have m2: "matches_in_scope ?gt [1, 0, 1, 1] = 2" and m1: "matches_in_scope ?gt [0, 0, 1, 0] = 1"
    by (simp_all add: matches_in_scope_def EXPECTED_KEYS_def in_scope_def dict_get_def)
  have e2: "compute_score_from_gt_and_matches ?gt 1 0 1 1
      = Inr (True, True, True, False, 3, 2, ScoreNum (6667 / 10000), False, 0)"
    by code_simp
  have e1: "compute_score_from_gt_and_matches ?gt 0 0 1 0
      = Inr (True, True, True, False, 3, 1, ScoreNum (3333 / 10000), False, 0)"
    by code_simp
  have f2: "set [1, 0, 1, 1 :: int] \<subseteq> {0, 1}" and f1: "set [0, 0, 1, 0 :: int] \<subseteq> {0, 1}"
    by simp_all
  have a: "compute_score_from_gt_and_matches ?na 1 1 1 1
      = Inr (False, False, False, False, 0, 0, ScoreText [], True, 1)"
    using score_not_applicable_iff_nothing_expected [of ?na 1 1 1 1] absent by blast
  have b2: "rounded_to_4_places (2 / 3) (6667 / 10000)"
  proof -
    obtain s where "compute_score_from_gt_and_matches ?gt 1 0 1 1
          = Inr (in_scope ?gt ''net_irr'', in_scope ?gt ''net_moic'', in_scope ?gt ''net_dpi'',
                 in_scope ?gt ''other_metric_value'', count_in_scope ?gt,
                 matches_in_scope ?gt [1, 0, 1, 1], ScoreNum s, False, 0)"
      and r: "rounded_to_4_places
                (of_int (matches_in_scope ?gt [1, 0, 1, 1]) / of_int (count_in_scope ?gt)) s"
      using score_not_applicable_iff_nothing_expected [of ?gt 1 0 1 1] present f2 by blast
    then have sv: "s = 6667 / 10000" unfolding e2 by simp
    show ?thesis using r unfolding c m2 sv by simp
  qed
  have b1: "rounded_to_4_places (1 / 3) (3333 / 10000)"
  proof -
    obtain s where "compute_score_from_gt_and_matches ?gt 0 0 1 0
          = Inr (in_scope ?gt ''net_irr'', in_scope ?gt ''net_moic'', in_scope ?gt ''net_dpi'',
                 in_scope ?gt ''other_metric_value'', count_in_scope ?gt,
                 matches_in_scope ?gt [0, 0, 1, 0], ScoreNum s, False, 0)"
      and r: "rounded_to_4_places
                (of_int (matches_in_scope ?gt [0, 0, 1, 0]) / of_int (count_in_scope ?gt)) s"
      using score_not_applicable_iff_nothing_expected [of ?gt 0 0 1 0] present f1 by blast
    then have sv: "s = 3333 / 10000" unfolding e1 by simp
    show ?thesis using r unfolding c m1 sv by simp
  qed
  show ?thesis using a e2 b2 e1 b1 by (intro conjI)
qed

text \<open>The predicate leaves one value: the rounded ratio is what \<^verbatim>\<open>round\<close> computes.\<close>

lemma rounded_ratio_is_py_round4: "rounded_to_4_places q s \<longleftrightarrow> s = py_round4 q"
  using py_round4_rounds rounded_to_4_places_unique by blast

subsection \<open>C3: a multiple is left as it is unless the label hint speaks of basis points\<close>

text \<open>
  C3 as stated, for every label hint, fails for the function: the division for a hint
  that contains \<^verbatim>\<open>bp\<close> comes before the test of the metric kind, so with the hint
  \<^verbatim>\<open>MOIC (bps)\<close> the multiple 150.0 becomes 1.5.
\<close>

theorem unit_normalize_pred_rescales_multiple_with_bps_hint:
  "unit_normalize_pred (Some (Fin 150)) None ''moic'' (Some ''MOIC (bps)'') = Some (Fin (3 / 2))"
  by code_simp

text \<open>
  C3, amended. For every predicted value, every expected value, and every label hint
  that is absent, empty, or does not contain \<^verbatim>\<open>bp\<close> when lower-cased, reconciling a
  multiple (\<^verbatim>\<open>moic\<close>, \<^verbatim>\<open>dpi\<close>, \<^verbatim>\<open>tvpi\<close>) returns the predicted value unchanged; reconciling
  again changes nothing. This covers the scorer: it reconciles \<^verbatim>\<open>moic\<close> and \<^verbatim>\<open>dpi\<close> without
  a label hint, and the kind it passes together with a label hint, \<^verbatim>\<open>yield\<close> or a value
  of the label table, is never a multiple.
\<close>

theorem unit_normalize_pred_multiple_unchanged_without_bps_hint:
  assumes "metric_kind \<in> set MULTIPLES" and "\<not> mentions_bps label_hint"
  shows "unit_normalize_pred pred_val gt_val metric_kind label_hint = pred_val
     \<and> unit_normalize_pred (unit_normalize_pred pred_val gt_val metric_kind label_hint)
          gt_val metric_kind label_hint
        = unit_normalize_pred pred_val gt_val metric_kind label_hint
     \<and> unit_normalize_pred pred_val gt_val metric_kind None = pred_val
     \<and> other_metric_kind repr_of ol \<notin> set MULTIPLES"
proof -
  have k: "metric_kind \<notin> set rate_metrics"
    using assms(1) by (auto simp: rate_metrics_def MULTIPLES_def)
  have h: "unit_normalize_pred p gt_val metric_kind label_hint = p" for p
  proof (cases label_hint)
    case None
    then show ?thesis using k by (cases p) (simp_all add: unit_normalize_pred_def)
  next
    case (Some hint)
    then have "\<not> py_in ''bp'' (py_lower hint)"
      using assms(2) by (simp add: mentions_bps_def)
    moreover from this have "\<not> py_in ''bps'' (py_lower hint)"
      using py_in_bps_bp by blast
    ultimately show ?thesis
      using k Some by (cases p) (simp_all add: unit_normalize_pred_def)
  qed
  have n: "unit_normalize_pred pred_val gt_val metric_kind None = pred_val"
    using k by (cases pred_val) (simp_all add: unit_normalize_pred_def)
  show ?thesis
    using h n other_metric_kind_no_multiple by simp
qed

theorem unit_normalize_pred_multiple_unchanged_witness:
  "unit_normalize_pred (Some (Fin 150)) (Some (Fin (3 / 2))) ''moic'' (Some ''Net MOIC'')
     = Some (Fin 150)
   \<and> unit_normalize_pred (Some (Fin (1 / 2))) (Some (Fin 50)) ''dpi'' None = Some (Fin (1 / 2))
   \<and> other_metric_kind (\<lambda>v. []) (PStr ''Yield (bps)'') \<notin> set MULTIPLES"
proof -
  have m: "''moic'' \<in> set MULTIPLES" and d: "''dpi'' \<in> set MULTIPLES"
    by (simp_all add: MULTIPLES_def)
  have b: "\<not> mentions_bps (Some ''Net MOIC'')" and n: "\<not> mentions_bps None"
    by code_simp+
  show ?thesis
    using unit_normalize_pred_multiple_unchanged_without_bps_hint
            [OF m b, of "Some (Fin 150)" "Some (Fin (3 / 2))" "\<lambda>v. []" "PStr ''Yield (bps)''"]
          unit_normalize_pred_multiple_unchanged_without_bps_hint
            [OF d n, of "Some (Fin (1 / 2))" "Some (Fin 50)" "\<lambda>v. []" "PStr ''Yield (bps)''"]
    by simp
qed

text \<open>
  What the scorer does with a label that speaks of basis points: the kind stays \<^verbatim>\<open>yield\<close>,
  a rate, and the hint is the label.
\<close>

lemma other_metric_kind_of_bps_label:
  "other_metric_kind (\<lambda>v. []) (PStr ''Yield (bps)'') = ''yield''
   \<and> other_label_hint (\<lambda>v. []) (PStr ''Yield (bps)'') = ''Yield (bps)''"
  by code_simp

subsection \<open>C2: the candidate pool reads three named fields and three named arrays\<close>

text \<open>
  C2 as stated, with every numeric top-level field in the pool, fails. The raw response
  \<^verbatim>\<open>{"tvpi": 25e-1}\<close> parses to the mapping with \<^verbatim>\<open>tvpi\<close> = 2.5; the pool holds 25 and -1,
  which the pattern finds in the raw text, and not 2.5: \<^verbatim>\<open>tvpi\<close> is not one of the fields
  \<^verbatim>\<open>extract_all_performance_numbers\<close> reads.
\<close>

theorem candidate_pool_misses_other_numeric_field:
  "candidate_pool (PDict [(''tvpi'', PFloat (Fin (5 / 2)))])
       [CHR ''{'', CHR 0x22, CHR ''t'', CHR ''v'', CHR ''p'', CHR ''i'', CHR 0x22, CHR '':'',
        CHR '' '', CHR ''2'', CHR ''5'', CHR ''e'', CHR ''-'', CHR ''1'', CHR ''}'']
     = Inr [Fin 25, Fin (- 1)]
   \<and> \<not> numeric_fields_in_pool [(''tvpi'', PFloat (Fin (5 / 2)))] [Fin 25, Fin (- 1)]"
  by code_simp

text \<open>
  C2, amended. For every parsed mapping and raw response string: the pool is computed
  unless a value of the mapping, or an element of an array in it, is an integer too
  large for a float. Whenever it is computed it consists, in this order, of the
  normalized values of the top-level fields \<^verbatim>\<open>net_irr\<close>, \<^verbatim>\<open>net_moic\<close> and \<^verbatim>\<open>net_dpi\<close>
  that are not absent; of the numbers in the arrays \<^verbatim>\<open>investment_performance\<close>,
  \<^verbatim>\<open>key_takeaways\<close> and \<^verbatim>\<open>business_updates\<close> (a string element scanned with the numeric
  pattern, which also consumes a trailing percent sign, \<^verbatim>\<open>x\<close> or multiplication sign; a
  numeric element that is not not-a-number taken as it is); and of the numbers the
  same pattern finds in the full raw response text.
\<close>

theorem candidate_pool_is_three_fields_three_arrays_and_raw:
  "(list_all (\<lambda>v. \<not> has_oversized v) (map snd d) \<longrightarrow>
      (\<exists>pool. candidate_pool (PDict d) raw = Inr pool))
   \<and> (\<forall>pool. candidate_pool (PDict d) raw = Inr pool \<longrightarrow> pool = pool_as_amended d raw)"
proof (intro conjI impI allI)
  assume "list_all (\<lambda>v. \<not> has_oversized v) (map snd d)"
  then have no: "\<forall>v \<in> snd ` set d. \<not> has_oversized v"
    by (auto simp: list_all_iff)
  then have small: "\<forall>v \<in> snd ` set d. \<not> oversized v"
    by (auto simp: has_oversized_def)
  obtain ns where ns: "top_level_numbers d TOP_LEVEL_KEYS = Inr ns"
    using top_level_numbers_returns [OF small] by blast
  obtain ms where ms: "array_numbers d ARRAY_KEYS = Inr ms"
    using array_numbers_returns [OF no] by blast
  show "\<exists>pool. candidate_pool (PDict d) raw = Inr pool"
    by (simp add: candidate_pool_def extract_all_performance_numbers_def bind_err_Inr_iff ns ms)
next
  fix pool
  assume r: "candidate_pool (PDict d) raw = Inr pool"
  show "pool = pool_as_amended d raw"
  proof (cases "d = []")
    case True
    have "top_level_part [] = []" "array_part [] = []"
      by (simp_all add: top_level_part_def array_part_def dict_get_def normalize_value_def
          TOP_LEVEL_KEYS_def ARRAY_KEYS_def)
    then show ?thesis
      using r True
      by (simp add: candidate_pool_def extract_all_performance_numbers_def bind_err_Inr_iff
          pool_as_amended_def extract_numbers_from_raw_response_def)
  next
    case False
    from r False obtain ns ms where ns: "top_level_numbers d TOP_LEVEL_KEYS = Inr ns"
      and ms: "array_numbers d ARRAY_KEYS = Inr ms"
      and pool: "pool = (ns @ ms) @ numbers_from_string raw"
      by (auto simp: candidate_pool_def extract_all_performance_numbers_def bind_err_Inr_iff
          extract_numbers_from_raw_response_def)
    show ?thesis
      using top_level_numbers_spec [OF ns] array_numbers_spec [OF ms] pool
      by (simp add: pool_as_amended_def top_level_part_def array_part_def)
  qed
qed

theorem candidate_pool_witness:
  "candidate_pool
     (PDict [(''net_irr'', PFloat (Fin (31 / 2))), (''net_moic'', PStr ''1.2x''),
             (''net_dpi'', PNone),
             (''investment_performance'', PList [PStr ''Net IRR: 15.5%'', PInt 3])])
     ''DPI 0.4''
   = Inr [Fin (31 / 2), Fin (6 / 5), Fin (31 / 2), Fin 3, Fin (2 / 5)]"
proof -
  let ?d = "[(''net_irr'', PFloat (Fin (31 / 2))), (''net_moic'', PStr ''1.2x''),
             (''net_dpi'', PNone),
             (''investment_performance'', PList [PStr ''Net IRR: 15.5%'', PInt 3])]"
  have h: "list_all (\<lambda>v. \<not> has_oversized v) (map snd ?d)"
    by code_simp
  have e: "pool_as_amended ?d ''DPI 0.4'' = [Fin (31 / 2), Fin (6 / 5), Fin (31 / 2), Fin 3, Fin (2 / 5)]"
    by code_simp
  show ?thesis
    using candidate_pool_is_three_fields_three_arrays_and_raw [of ?d "''DPI 0.4''"] h e
    by auto
qed

subsection \<open>C4: the matcher tries every rule on an entry before it reads the next entry\<close>

text \<open>
  C4: the rules are ranked over the whole alias list, so an entry equal to the document
  after normalization (rule 2) wins over an entry that matches by substring or by words
  only; the docstring of \<^verbatim>\<open>_match_pdf_to_ground_truth\<close> says the same, "Exact (normalized)
  first, then substring, then word match". The code runs all rules inside one loop over
  the entries. Ground truth with the entries \<^verbatim>\<open>Fund I - Q3 Report\<close> and
  \<^verbatim>\<open>Fund II - Q3 Report\<close>, in this order, and the document \<^verbatim>\<open>Fund II Q3 Report.pdf\<close>: the
  exact lookup finds nothing, the second entry equals the document's stem after
  normalization, the first entry matches by words only (\<^verbatim>\<open>fund\<close> and \<^verbatim>\<open>report\<close> occur in the
  stem). The code returns the metrics of the first entry, those of another fund; the
  ranking of C4 gives the second.
\<close>

theorem match_pdf_word_match_beats_later_normalized_equal:
  "match_pdf_to_ground_truth ''Fund II Q3 Report.pdf'' ''Fund II Q3 Report''
     [(''Fund I - Q3 Report'', [(''net_irr'', PFloat (Fin 10))]),
      (''Fund II - Q3 Report'', [(''net_irr'', PFloat (Fin 20))])]
     [(''Fund I - Q3 Report'', ''Fund I - Q3 Report'', [(''net_irr'', PFloat (Fin 10))]),
      (''Fund II - Q3 Report'', ''Fund II - Q3 Report'', [(''net_irr'', PFloat (Fin 20))])]
     = Some [(''net_irr'', PFloat (Fin 10))]
   \<and> stated_match ''Fund II Q3 Report.pdf'' ''Fund II Q3 Report''
     [(''Fund I - Q3 Report'', [(''net_irr'', PFloat (Fin 10))]),
      (''Fund II - Q3 Report'', [(''net_irr'', PFloat (Fin 20))])]
     [(''Fund I - Q3 Report'', ''Fund I - Q3 Report'', [(''net_irr'', PFloat (Fin 10))]),
      (''Fund II - Q3 Report'', ''Fund II - Q3 Report'', [(''net_irr'', PFloat (Fin 20))])]
     = Some [(''net_irr'', PFloat (Fin 20))]
   \<and> normalized_equal ''Fund II Q3 Report.pdf'' ''Fund II Q3 Report''
        (''Fund II - Q3 Report'', ''Fund II - Q3 Report'', [(''net_irr'', PFloat (Fin 20))])
   \<and> \<not> normalized_equal ''Fund II Q3 Report.pdf'' ''Fund II Q3 Report''
        (''Fund I - Q3 Report'', ''Fund I - Q3 Report'', [(''net_irr'', PFloat (Fin 10))])"
  by code_simp

theorem match_pdf_word_match_witness:
  "match_pdf_to_ground_truth ''Fund II Q3 Report.pdf'' ''Fund II Q3 Report''
     [(''Fund I - Q3 Report'', [(''net_irr'', PFloat (Fin 10))]),
      (''Fund II - Q3 Report'', [(''net_irr'', PFloat (Fin 20))])]
     [(''Fund I - Q3 Report'', ''Fund I - Q3 Report'', [(''net_irr'', PFloat (Fin 10))]),
      (''Fund II - Q3 Report'', ''Fund II - Q3 Report'', [(''net_irr'', PFloat (Fin 20))])]
   \<noteq> stated_match ''Fund II Q3 Report.pdf'' ''Fund II Q3 Report''
     [(''Fund I - Q3 Report'', [(''net_irr'', PFloat (Fin 10))]),
      (''Fund II - Q3 Report'', [(''net_irr'', PFloat (Fin 20))])]
     [(''Fund I - Q3 Report'', ''Fund I - Q3 Report'', [(''net_irr'', PFloat (Fin 10))]),
      (''Fund II - Q3 Report'', ''Fund II - Q3 Report'', [(''net_irr'', PFloat (Fin 20))])]"
  using match_pdf_word_match_beats_later_normalized_equal by simp

text \<open>
  The same with rule 3: the entry \<^verbatim>\<open>fund report\<close> is a substring of the stem of
  \<^verbatim>\<open>Fund Report 2024.pdf\<close> and is returned although the later entry \<^verbatim>\<open>fund-report-2024.pdf\<close>
  equals the document after normalization.
\<close>

lemma match_pdf_earlier_substring_beats_later_equal:
  "match_pdf_to_ground_truth ''Fund Report 2024.pdf'' ''Fund Report 2024''
     [(''fund report'', [(''net_irr'', PFloat (Fin 10))]),
      (''fund-report-2024.pdf'', [(''net_irr'', PFloat (Fin 20))]),
      (''fund-report-2024'', [(''net_irr'', PFloat (Fin 20))])]
     [(''fund report'', ''fund report'', [(''net_irr'', PFloat (Fin 10))]),
      (''fund-report-2024.pdf'', ''fund-report-2024'', [(''net_irr'', PFloat (Fin 20))])]
     = Some [(''net_irr'', PFloat (Fin 10))]
   \<and> stated_match ''Fund Report 2024.pdf'' ''Fund Report 2024''
     [(''fund report'', [(''net_irr'', PFloat (Fin 10))]),
      (''fund-report-2024.pdf'', [(''net_irr'', PFloat (Fin 20))]),
      (''fund-report-2024'', [(''net_irr'', PFloat (Fin 20))])]
     [(''fund report'', ''fund report'', [(''net_irr'', PFloat (Fin 10))]),
      (''fund-report-2024.pdf'', ''fund-report-2024'', [(''net_irr'', PFloat (Fin 20))])]
     = Some [(''net_irr'', PFloat (Fin 20))]"
  by code_simp

text \<open>
  What the loop computes, for every input: after the exact lookup (by raw name, and by
  stem when the name is missing or maps to an empty mapping), the first entry in source
  order that meets any rule, the rules being tried entry by entry.
\<close>

lemma match_pdf_is_lookup_then_first_matching_entry:
  "match_pdf_to_ground_truth pdf_name pdf_stem gt_lookup gtpdf_values =
     (case lookup_name_or_stem gt_lookup pdf_name pdf_stem of
        Some gt \<Rightarrow> Some gt
      | None \<Rightarrow> map_option entry_metrics (find (entry_matches pdf_name pdf_stem) gtpdf_values))"
proof -
  have "match_entries pdf_name pdf_stem es =
          map_option entry_metrics (find (entry_matches pdf_name pdf_stem) es)" for es
  proof (induction es)
    case Nil
    then show ?case by simp
  next
    case (Cons e es)
    obtain k s m where e: "e = (k, s, m)" by (cases e)
    show ?case
      unfolding e using Cons.IH
      by (simp add: entry_matches_def normalized_equal_def entry_metrics_def Let_def not_less)
  qed
  then show ?thesis by (simp add: match_pdf_to_ground_truth_def split: option.splits)
qed

lemma match_pdf_first_matching_entry_example:
  "match_pdf_to_ground_truth ''Acme Growth Fund Q3.pdf'' ''Acme Growth Fund Q3'' []
     [(''Beta Capital'', ''Beta Capital'', [(''net_irr'', PFloat (Fin 1))]),
      (''acme_fund'', ''acme_fund'', [(''net_irr'', PFloat (Fin 2))])]
   = Some [(''net_irr'', PFloat (Fin 2))]"
proof -
  have "find (entry_matches ''Acme Growth Fund Q3.pdf'' ''Acme Growth Fund Q3'')
          [(''Beta Capital'', ''Beta Capital'', [(''net_irr'', PFloat (Fin 1))]),
           (''acme_fund'', ''acme_fund'', [(''net_irr'', PFloat (Fin 2))])]
        = Some (''acme_fund'', ''acme_fund'', [(''net_irr'', PFloat (Fin 2))])"
    by code_simp
  then show ?thesis
    using match_pdf_is_lookup_then_first_matching_entry
      [of "''Acme Growth Fund Q3.pdf''" "''Acme Growth Fund Q3''" "[]"
          "[(''Beta Capital'', ''Beta Capital'', [(''net_irr'', PFloat (Fin 1))]),
            (''acme_fund'', ''acme_fund'', [(''net_irr'', PFloat (Fin 2))])]"]
    by (simp add: lookup_name_or_stem_def entry_metrics_def)
qed

subsection \<open>C5: truncated responses and failed parses carry an error\<close>



subsection \<open>C6: the value normalizer keeps a trailing multiplication sign\<close>

text \<open>
  C6 says that value normalization strips the trailing unit markers \<^verbatim>\<open>%\<close>, \<^verbatim>\<open>x\<close> and the
  multiplication sign before parsing, and never raises. The code strips \<^verbatim>\<open>"xX%"\<close> only:
  \<^verbatim>\<open>"1.5x"\<close> gives 1.5, but \<^verbatim>\<open>"1.5"\<close> followed by the multiplication sign gives absent,
  although \<^verbatim>\<open>_numbers_from_string\<close> strips that sign from the same text and reads 1.5.
  An integer of magnitude \<open>2^1024\<close> makes \<^verbatim>\<open>float\<close> raise OverflowError.
\<close>

theorem normalize_value_keeps_times_sign:
  "normalize_value (PStr ''1.5x'') = Inr (Some (Fin (3 / 2)))
   \<and> normalize_value (PStr (''1.5'' @ [times_sign])) = Inr None
   \<and> numbers_from_string (''1.5'' @ [times_sign]) = [Fin (3 / 2)]"
  by code_simp

theorem normalize_value_keeps_times_sign_witness:
  "normalize_value (PStr (''1.5'' @ [times_sign])) \<noteq> normalize_value (PStr ''1.5x'')"
  using normalize_value_keeps_times_sign by simp

lemma normalize_value_raises_on_large_int:
  "normalize_value (PInt (2 ^ 1024)) = Inl OverflowError"
  by (simp add: normalize_value_def float_of_int_def float_limit_def)

subsection \<open>C7: a new-schema value of zero gives way to the old key\<close>

text \<open>
  C7 says that the new-schema key wins whenever both keys of a core metric are present.
  The code reads \<^verbatim>\<open>pred_json.get("dpi") or pred_json.get("net_dpi")\<close>, and \<^verbatim>\<open>or\<close> passes
  over a falsy left operand: with \<^verbatim>\<open>{"dpi": 0.0, "net_dpi": 0.5}\<close> the canonical \<^verbatim>\<open>dpi\<close>
  is 0.5, the old key's value, and with \<^verbatim>\<open>{"dpi": 0.0}\<close> alone it is absent.
\<close>

theorem normalize_prediction_zero_gives_way_to_old_key:
  "normalize_prediction (\<lambda>_. []) (PDict [(''dpi'', PFloat (Fin 0)), (''net_dpi'', PFloat (Fin (1 / 2)))])
     = Inr [(''irr'', None), (''moic'', None), (''dpi'', Some (Fin (1 / 2))), (''tvpi'', None),
            (''current_yield'', None), (''income_distribution_rate'', None),
            (''gross_annualized_debt_itd_portfolio_yield'', None), (''total_distributions'', None),
            (''unrealized_value'', None), (''closing_date_dec_3_month'', None), (''yield'', None),
            (''ytd_whcm'', None), (''gmv'', None)]
   \<and> normalize_prediction (\<lambda>_. []) (PDict [(''dpi'', PFloat (Fin 0))])
     = Inr [(''irr'', None), (''moic'', None), (''dpi'', None), (''tvpi'', None),
            (''current_yield'', None), (''income_distribution_rate'', None),
            (''gross_annualized_debt_itd_portfolio_yield'', None), (''total_distributions'', None),
            (''unrealized_value'', None), (''closing_date_dec_3_month'', None), (''yield'', None),
            (''ytd_whcm'', None), (''gmv'', None)]"
  by code_simp

theorem normalize_prediction_zero_gives_way_witness:
  "map_option (\<lambda>out. map_of out ''dpi'')
     (case normalize_prediction (\<lambda>_. [])
             (PDict [(''dpi'', PFloat (Fin 0)), (''net_dpi'', PFloat (Fin (1 / 2)))]) of
        Inl e \<Rightarrow> None | Inr out \<Rightarrow> Some out)
   = Some (Some (Some (Fin (1 / 2))))"
  using normalize_prediction_zero_gives_way_to_old_key by simp

text \<open>A new-schema value that is truthy does win over the old key.\<close>

lemma normalize_prediction_truthy_new_key_wins:
  "normalize_prediction (\<lambda>_. []) (PDict [(''dpi'', PFloat (Fin (1 / 4))), (''net_dpi'', PFloat (Fin (1 / 2)))])
     = Inr [(''irr'', None), (''moic'', None), (''dpi'', Some (Fin (1 / 4))), (''tvpi'', None),
            (''current_yield'', None), (''income_distribution_rate'', None),
            (''gross_annualized_debt_itd_portfolio_yield'', None), (''total_distributions'', None),
            (''unrealized_value'', None), (''closing_date_dec_3_month'', None), (''yield'', None),
            (''ytd_whcm'', None), (''gmv'', None)]"
  by code_simp

subsection \<open>C8: the layout error is raised when no probe succeeds, and a probe reads the third row\<close>

text \<open>
  C8 as stated, with the first two rows deciding, fails. A single sheet with the rows
  \<^verbatim>\<open>Fund\<close>, \<^verbatim>\<open>Net IRR\<close>, \<^verbatim>\<open>15.5\<close> (one cell each) has no identifier column; its first two rows
  are not a label/value pair (\<^verbatim>\<open>Fund\<close> is no metric label) and, with one column, no label
  column with document columns. The loader raises nothing: it takes the first row for a
  heading, reads the second and third row as a label/value pair and parses the sheet as
  the alternating layout.
\<close>

theorem load_excel_third_row_rescues_layout:
  "load_ground_truth_from_excel (\<lambda>v. []) layout_names
       (one_sheet_workbook [[PStr ''Fund''], [PStr ''Net IRR''], [PFloat (Fin (31 / 2))]])
     = Inr ''alternating''
   \<and> no_identifier_column (\<lambda>v. []) [[PStr ''Fund''], [PStr ''Net IRR''], [PFloat (Fin (31 / 2))]]
   \<and> \<not> label_value_pair_at (\<lambda>v. []) [[PStr ''Fund''], [PStr ''Net IRR''], [PFloat (Fin (31 / 2))]] 0
   \<and> \<not> label_column_layout (\<lambda>v. []) [[PStr ''Fund''], [PStr ''Net IRR''], [PFloat (Fin (31 / 2))]]"
  by code_simp

text \<open>
  C8, amended. For every workbook of a single sheet with at least one row whose header
  row contains no recognizable identifier column: when neither the first and second
  row nor the second and third row can be read as a label/value pair, and the sheet
  cannot be read as a label column with document columns (second row starting with a
  metric label, some row wider than two cells), ground-truth loading raises the
  configuration error whose message names the observed header row (its cells printed,
  stripped and lower-cased); otherwise it returns what the parser of the detected
  layout returns, so no layout is guessed after a failed detection.
\<close>

theorem load_excel_raises_when_no_probe_succeeds:
  assumes single: "length (worksheets wb) < 2"
    and rows: "sheet_rows (active wb) \<noteq> []"
    and no_id: "no_identifier_column repr_of (sheet_rows (active wb))"
  shows "load_ground_truth_from_excel repr_of parsers wb =
     (if label_value_pair_at repr_of (sheet_rows (active wb)) 0
      then parse_alternating_label_value_ground_truth parsers (sheet_rows (active wb))
      else if label_value_pair_at repr_of (sheet_rows (active wb)) 1
      then (if 2 \<le> value_cells_in_row repr_of (row_at (sheet_rows (active wb)) 2)
            then parse_transposed_ground_truth parsers (sheet_rows (active wb))
            else parse_alternating_label_value_ground_truth parsers (sheet_rows (active wb)))
      else if label_column_layout repr_of (sheet_rows (active wb))
      then parse_transposed_ground_truth parsers (sheet_rows (active wb))
      else Inl (ValueErrorFound HEADER_MSG
                  (header_of repr_of (row_at (sheet_rows (active wb)) 0))))"
proof -
  let ?rows = "sheet_rows (active wb)"
  have id: "find_id_col (header_of repr_of (row_at ?rows 0)) ID_COLS = None"
    using no_id by (simp add: find_id_col_None_iff no_identifier_column_def)
  have l1: "cell_looks_like_metric_label repr_of
              (if 1 < length ?rows then first_cell (row_at ?rows 1) else PNone)
            \<longleftrightarrow> 1 < length ?rows \<and> cell_looks_like_metric_label repr_of (first_cell (row_at ?rows 1))"
    by (simp add: label_of_None)
  have p1: "label_value_pair_at repr_of ?rows 1 \<longleftrightarrow>
      cell_looks_like_metric_label repr_of
        (if 1 < length ?rows then first_cell (row_at ?rows 1) else PNone)
      \<and> 2 < length ?rows \<and> value_in_row repr_of (row_at ?rows 2)"
    unfolding l1 by (auto simp: label_value_pair_at_def numeral_2_eq_2)
  have p0: "label_value_pair_at repr_of ?rows 0 \<longleftrightarrow>
      cell_looks_like_metric_label repr_of (first_cell (row_at ?rows 0))
      \<and> 1 < length ?rows \<and> value_in_row repr_of (row_at ?rows 1)"
    by (simp add: label_value_pair_at_def)
  have p2: "label_column_layout repr_of ?rows \<longleftrightarrow>
      cell_looks_like_metric_label repr_of
        (if 1 < length ?rows then first_cell (row_at ?rows 1) else PNone)
      \<and> 2 < n_cols_of ?rows"
    unfolding l1 by (auto simp: label_column_layout_def)
  show ?thesis
    unfolding load_ground_truth_from_excel_def Let_def p0 p1 p2
    using single rows id by simp
qed

theorem load_excel_raises_witness:
  "load_ground_truth_from_excel (\<lambda>v. []) layout_names
       (one_sheet_workbook [[PStr ''Fund'', PStr ''Quarter''], [PStr ''Acme'', PStr ''Q3'']])
     = Inl (ValueErrorFound HEADER_MSG [''fund'', ''quarter''])"
proof -
  let ?rows = "[[PStr ''Fund'', PStr ''Quarter''], [PStr ''Acme'', PStr ''Q3'']]"
  let ?wb = "one_sheet_workbook ?rows"
  have r: "sheet_rows (active ?wb) = ?rows" by (simp add: one_sheet_workbook_def)
  have single: "length (worksheets ?wb) < 2" by (simp add: one_sheet_workbook_def)
  have rows: "sheet_rows (active ?wb) \<noteq> []" by (simp add: r)
  have no_id: "no_identifier_column (\<lambda>v. []) (sheet_rows (active ?wb))"
    unfolding r by code_simp
  have a: "\<not> label_value_pair_at (\<lambda>v. []) ?rows 0" by code_simp
  have b: "\<not> label_value_pair_at (\<lambda>v. []) ?rows 1" by code_simp
  have c: "\<not> label_column_layout (\<lambda>v. []) ?rows" by code_simp
  have h: "header_of (\<lambda>v. []) (row_at ?rows 0) = [''fund'', ''quarter'']" by code_simp
  show ?thesis
    using load_excel_raises_when_no_probe_succeeds [OF single rows no_id, of layout_names]
    unfolding r using a b c h by simp
qed

subsection \<open>C9: the canonical prediction has the whole vocabulary; its numbers may be infinite\<close>

text \<open>
  C9 as stated, with every value finite or absent, fails: a numeric input passes through
  the value normalizer unless it is not-a-number, so the float infinity that
  \<^verbatim>\<open>json.loads\<close> returns for \<^verbatim>\<open>1e999\<close> is kept.
\<close>

theorem normalize_prediction_keeps_infinity:
  "normalize_prediction (\<lambda>_. []) (PDict [(''irr'', PFloat PosInf)]) =
     Inr [(''irr'', Some PosInf), (''moic'', None), (''dpi'', None), (''tvpi'', None),
          (''current_yield'', None), (''income_distribution_rate'', None),
          (''gross_annualized_debt_itd_portfolio_yield'', None), (''total_distributions'', None),
          (''unrealized_value'', None), (''closing_date_dec_3_month'', None), (''yield'', None),
          (''ytd_whcm'', None), (''gmv'', None)]
   \<and> \<not> canonical_metrics_inv
       [(''irr'', Some PosInf), (''moic'', None), (''dpi'', None), (''tvpi'', None),
        (''current_yield'', None), (''income_distribution_rate'', None),
        (''gross_annualized_debt_itd_portfolio_yield'', None), (''total_distributions'', None),
        (''unrealized_value'', None), (''closing_date_dec_3_month'', None), (''yield'', None),
        (''ytd_whcm'', None), (''gmv'', None)]"
  by code_simp

text \<open>
  C9, amended. For every raw response mapping: canonicalization returns unless a value
  of the mapping is an integer too large for a float, and whenever it returns, the keys
  of the result are exactly the canonical vocabulary, in its order. Every value of the
  result is absent or a float and never a string; this is the type of the result. The
  float may be an infinity.
\<close>

theorem normalize_prediction_has_canonical_keys:
  "(list_all (\<lambda>v. \<not> oversized v) (map snd d) \<longrightarrow>
      (\<exists>out. normalize_prediction repr_of (PDict d) = Inr out))
   \<and> (\<forall>out. normalize_prediction repr_of (PDict d) = Inr out \<longrightarrow> map fst out = CANONICAL_KEYS)"
proof (intro conjI impI allI)
  assume "list_all (\<lambda>v. \<not> oversized v) (map snd d)"
  then have small: "\<forall>v \<in> snd ` set d. \<not> oversized v"
    by (auto simp: list_all_iff)
  show "\<exists>out. normalize_prediction repr_of (PDict d) = Inr out"
  proof (cases "d = []")
    case True
    then show ?thesis by (simp add: normalize_prediction_def)
  next
    case False
    obtain o1 where o1: "set_core ''irr'' ''net_irr'' d all_absent = Inr o1"
      using set_core_returns [OF small] by blast
    obtain o2 where o2: "set_core ''moic'' ''net_moic'' d o1 = Inr o2"
      using set_core_returns [OF small] by blast
    obtain o3 where o3: "set_core ''dpi'' ''net_dpi'' d o2 = Inr o3"
      using set_core_returns [OF small] by blast
    obtain o4 where o4: "set_core ''tvpi'' ''net_tvpi'' d o3 = Inr o4"
      using set_core_returns [OF small] by blast
    obtain o5 where o5: "named_fields d NEW_SCHEMA_FIELDS o4 = Inr o5"
      using named_fields_returns [OF small] by blast
    obtain o6 where o6: "other_metric repr_of d o5 = Inr o6"
      using other_metric_returns [OF small] by blast
    show ?thesis
      using False by (simp add: normalize_prediction_def bind_err_Inr_iff o1 o2 o3 o4 o5 o6)
  qed
next
  fix out
  assume r: "normalize_prediction repr_of (PDict d) = Inr out"
  show "map fst out = CANONICAL_KEYS"
  proof (cases "d = []")
    case True
    then show ?thesis using r all_absent_keys by (simp add: normalize_prediction_def)
  next
    case False
    from r False obtain o1 o2 o3 o4 o5 where
      o1: "set_core ''irr'' ''net_irr'' d all_absent = Inr o1" and
      o2: "set_core ''moic'' ''net_moic'' d o1 = Inr o2" and
      o3: "set_core ''dpi'' ''net_dpi'' d o2 = Inr o3" and
      o4: "set_core ''tvpi'' ''net_tvpi'' d o3 = Inr o4" and
      o5: "named_fields d NEW_SCHEMA_FIELDS o4 = Inr o5" and
      o6: "other_metric repr_of d o5 = Inr out"
      by (auto simp: normalize_prediction_def bind_err_Inr_iff)
    note k1 = set_core_keys [OF o1 all_absent_keys core_keys_mem(1)]
    note k2 = set_core_keys [OF o2 k1 core_keys_mem(2)]
    note k3 = set_core_keys [OF o3 k2 core_keys_mem(3)]
    note k4 = set_core_keys [OF o4 k3 core_keys_mem(4)]
    have k5: "map fst o5 = CANONICAL_KEYS"
      using named_fields_keys [OF o5] new_schema_fields_mem k4 by simp
    show ?thesis by (rule other_metric_keys [OF o6 k5])
  qed
qed

theorem normalize_prediction_has_canonical_keys_witness:
  "\<exists>out. normalize_prediction (\<lambda>_. [])
            (PDict [(''irr'', PFloat (Fin (103 / 10))), (''net_moic'', PStr ''1.2x'')]) = Inr out
         \<and> map fst out = CANONICAL_KEYS"
proof -
  have "list_all (\<lambda>v. \<not> oversized v)
          (map snd [(''irr'', PFloat (Fin (103 / 10))), (''net_moic'', PStr ''1.2x'')])"
    by (simp add: oversized_def)
  then show ?thesis
    using normalize_prediction_has_canonical_keys
      [of "[(''irr'', PFloat (Fin (103 / 10))), (''net_moic'', PStr ''1.2x'')]" "\<lambda>_. []"]
    by blast
qed

subsection \<open>C10: an exception of the parser that is not a decode error leaves the extractor\<close>

text \<open>
  C10 says that structured-response extraction never raises. \<^verbatim>\<open>_try_parse_json\<close> is
  documented to return the pair (none, error) on failure, but its handler names
  \<^verbatim>\<open>json.JSONDecodeError\<close> and \<^verbatim>\<open>TypeError\<close> only. Whenever the parser raises another
  exception on the brace-balanced candidate, that exception ends
  \<^verbatim>\<open>extract_json_from_response\<close>. \<^verbatim>\<open>json.loads\<close> does so on an integer literal of more than
  4300 digits (a plain ValueError) and on brackets nested deeper than the interpreter's
  recursion limit (RecursionError).
\<close>

theorem extract_json_raises_what_the_parser_raises:
  assumes "extract_first_json_object (py_strip content) = Inr (Some snippet)"
    and "loads snippet = Raised e"
  shows "extract_json_from_response loads content = Inl e"
proof -
  have ne: "snippet \<noteq> []"
    using extract_first_json_object_returns [of "py_strip content"] assms(1) by auto
  have "try_parse_json loads snippet = Inl e"
    using assms(2) by (simp add: try_parse_json_def)
  then have "parse_with_repairs loads snippet = Inl e"
    by (simp add: parse_with_repairs_def bind_err_def)
  then show ?thesis
    using assms(1) ne by (simp add: extract_json_from_response_def Let_def bind_err_def)
qed

text \<open>
  The responses \<^verbatim>\<open>{"a": 11...1}\<close> with 4301 digits and \<^verbatim>\<open>{"a": [[...]]}\<close> with 100000 nested
  brackets, the parser standing for \<^verbatim>\<open>json.loads\<close> on them.
\<close>

theorem extract_json_raises_witness:
  "extract_json_from_response
       (\<lambda>s. if s = CHR ''{'' # ([CHR 0x22, CHR ''a'', CHR 0x22, CHR '':'', CHR '' '']
                                 @ replicate 4301 (CHR ''1'')) @ ''}''
             then Raised (ValueError
                    ''Exceeds the limit (4300 digits) for integer string conversion: value has 4301 digits; use sys.set_int_max_str_digits() to increase the limit'')
             else JSONDecodeError ''Expecting value'')
       (CHR ''{'' # ([CHR 0x22, CHR ''a'', CHR 0x22, CHR '':'', CHR '' '']
                     @ replicate 4301 (CHR ''1'')) @ ''}'')
     = Inl (ValueError
            ''Exceeds the limit (4300 digits) for integer string conversion: value has 4301 digits; use sys.set_int_max_str_digits() to increase the limit'')
   \<and> extract_json_from_response
       (\<lambda>s. if s = CHR ''{'' # ([CHR 0x22, CHR ''a'', CHR 0x22, CHR '':'', CHR '' '']
                                 @ replicate 100000 (CHR ''['') @ replicate 100000 (CHR '']''))
                      @ ''}''
             then Raised RecursionError
             else JSONDecodeError ''Expecting value'')
       (CHR ''{'' # ([CHR 0x22, CHR ''a'', CHR 0x22, CHR '':'', CHR '' '']
                     @ replicate 100000 (CHR ''['') @ replicate 100000 (CHR '']'')) @ ''}'')
     = Inl RecursionError"
proof -
  let ?pre = "[CHR 0x22, CHR ''a'', CHR 0x22, CHR '':'', CHR '' '']"
  let ?b1 = "?pre @ replicate 4301 (CHR ''1'')"
  let ?b2 = "?pre @ replicate 100000 (CHR ''['') @ replicate 100000 (CHR '']'')"
  let ?c1 = "CHR ''{'' # ?b1 @ ''}''"
  let ?c2 = "CHR ''{'' # ?b2 @ ''}''"
  let ?L1 = "\<lambda>s. if s = ?c1
             then Raised (ValueError
                    ''Exceeds the limit (4300 digits) for integer string conversion: value has 4301 digits; use sys.set_int_max_str_digits() to increase the limit'')
             else JSONDecodeError ''Expecting value''"
  let ?L2 = "\<lambda>s. if s = ?c2 then Raised RecursionError else JSONDecodeError ''Expecting value''"
  have low: "list_all (\<lambda>c. lower_char c \<noteq> CHR 0x60)
               [CHR 0x22, CHR ''a'', CHR '':'', CHR '' '', CHR ''1'', CHR ''['', CHR '']'']"
    by code_simp
  have s1: "set ?b1 = {CHR 0x22, CHR ''a'', CHR '':'', CHR '' '', CHR ''1''}"
    and s2: "set ?b2 = {CHR 0x22, CHR ''a'', CHR '':'', CHR '' '', CHR ''['', CHR '']''}"
    by auto
  have p1: "set ?b1 \<inter> {CHR ''{'', CHR ''}'', CHR 0x60, newline} = {}"
    and p2: "set ?b2 \<inter> {CHR ''{'', CHR ''}'', CHR 0x60, newline} = {}"
    unfolding s1 s2 by (simp_all add: newline_def)
  have l1: "CHR 0x60 \<notin> lower_char ` set ?b1" and l2: "CHR 0x60 \<notin> lower_char ` set ?b2"
    unfolding s1 s2 using low by auto
  have e1: "extract_first_json_object (py_strip ?c1) = Inr (Some ?c1)"
    unfolding py_strip_braced by (rule extract_first_json_object_braced [OF p1 l1])
  have e2: "extract_first_json_object (py_strip ?c2) = Inr (Some ?c2)"
    unfolding py_strip_braced by (rule extract_first_json_object_braced [OF p2 l2])
  have r1: "?L1 ?c1
      = Raised (ValueError
                    ''Exceeds the limit (4300 digits) for integer string conversion: value has 4301 digits; use sys.set_int_max_str_digits() to increase the limit'')"
    by (simp only: if_True refl)
  have r2: "?L2 ?c2 = Raised RecursionError"
    by (simp only: if_True refl)
  show ?thesis
    using extract_json_raises_what_the_parser_raises [of ?c1 ?c1 ?L1, OF e1 r1]
          extract_json_raises_what_the_parser_raises [of ?c2 ?c2 ?L2, OF e2 r2]
    by (intro conjI)
qed

text \<open>
  When the parser raises nothing but its decode error on the texts tried, the extractor
  returns a pair of a mapping and an optional error, for every input string: the only
  other operation that can raise, \<^verbatim>\<open>str.index\<close>, is reached only where the substring is
  present, and the loops end. When the error is none, the mapping is the dict the parser
  returned for one of the texts tried on the candidate; a parsed scalar or array is
  never returned as success.
\<close>

lemma extract_json_returns_unless_the_parser_raises:
  assumes "\<forall>snippet. extract_first_json_object (py_strip content) = Inr (Some snippet)
             \<longrightarrow> list_all (\<lambda>t. \<not> attempt_raises loads t) (parse_attempts loads snippet)"
  shows "\<exists>d e. extract_json_from_response loads content = Inr (d, e)
     \<and> (e = None \<longrightarrow>
          (\<exists>snippet s. extract_first_json_object (py_strip content) = Inr (Some snippet)
             \<and> s \<in> set (parse_attempts loads snippet)
             \<and> loads s = Decoded (PDict d)))"
proof -
  obtain r where r: "extract_first_json_object (py_strip content) = Inr r" and ne: "r \<noteq> Some []"
    using extract_first_json_object_returns by blast
  show ?thesis
  proof (cases r)
    case None
    then show ?thesis
      using r by (simp add: extract_json_from_response_def truncated_fallback_def Let_def
          bind_err_def)
  next
    case (Some snippet)
    then have res: "extract_json_from_response loads content = parse_with_repairs loads snippet"
      using r ne by (simp add: extract_json_from_response_def Let_def bind_err_def)
    have "list_all (\<lambda>t. \<not> attempt_raises loads t) (parse_attempts loads snippet)"
      using assms r Some by simp
    then obtain x where x: "first_success loads (parse_attempts loads snippet) = Inr x"
      using first_success_no_raise by blast
    show ?thesis
    proof (cases x)
      case None
      have "attempt_fails loads snippet \<or> first_error loads snippet \<noteq> None"
      proof -
        obtain ts where ts: "parse_attempts loads snippet = snippet # ts"
          using parse_attempts_head by blast
        show ?thesis
          using x None unfolding ts
          by (auto simp: first_error_def attempt_fails_def try_parse_json_def
                split: json_result.splits pyval.splits)
      qed
      then have "first_error loads snippet \<noteq> None"
        by (auto simp: attempt_fails_iff first_error_def)
      then show ?thesis
        using res x None by (auto simp: parse_with_repairs_attempts)
    next
      case (Some d)
      then obtain s where "s \<in> set (parse_attempts loads snippet)" "loads s = Decoded (PDict d)"
        using x first_success_Some by blast
      then show ?thesis
        using res x Some r \<open>r = Some snippet\<close> by (auto simp: parse_with_repairs_attempts)
    qed
  qed
qed

lemma extract_json_parsed_object_example:
  "extract_json_from_response
       (\<lambda>s. if s = [CHR ''{'', CHR 0x22, CHR ''a'', CHR 0x22, CHR '':'', CHR '' '', CHR ''1'', CHR ''}'']
             then Decoded (PDict [(''a'', PInt 1)]) else JSONDecodeError ''Expecting value'')
       [CHR ''o'', CHR ''k'', CHR '' '', CHR ''{'', CHR 0x22, CHR ''a'', CHR 0x22, CHR '':'',
        CHR '' '', CHR ''1'', CHR ''}'', CHR '' '']
     = Inr ([(''a'', PInt 1)], None)"
  by code_simp

end
